theory Spec2Isabelle
  imports Main
begin

section \<open>Data model\<close>

text \<open>
  Values that travel as JSON-shaped Python objects (tool arguments, parameter schemas, the
  tool list handed to the reasoning engine). A Python dict keeps insertion order, so an
  object is an association list. A float is kept as mantissa and binary exponent; the code
  under study only passes such values on.
\<close>

datatype json =
    JNull
  | JBool bool
  | JInt int
  | JFloat int int
  | JStr string
  | JArr "json list"
  | JObj "(string \<times> json) list"

text \<open>
  A raised Python exception. Only instances of \<open>Exception\<close> are modelled (interrupts and
  task cancellation, which derive from \<open>BaseException\<close> alone, are not failures of a
  collaborator). The class matters to the code in one way only: \<open>except RuntimeError\<close>
  against \<open>except Exception\<close>. So the class is either \<open>RuntimeError\<close> (or a subclass of it)
  or any other exception class, kept by name. \<open>exn_text\<close> is \<open>str(e)\<close>, \<open>exn_cause\<close> is
  \<open>e.__cause__\<close>, set by \<open>raise ... from e\<close>.
\<close>

datatype exn_class = RuntimeError | OtherException string

datatype exn = Exn (exn_class: exn_class) (exn_text: string) (exn_cause: "exn option")

text \<open>A tool descriptor as the server lists it. \<open>tool_inputSchema = None\<close> stands for a
  descriptor object without the attribute \<open>inputSchema\<close> (what \<open>getattr\<close> with a default
  asks about); an attribute that is present and holds Python's \<open>None\<close> is \<open>Some JNull\<close>.\<close>

record tool =
  tool_name :: string
  tool_description :: "string option"
  tool_inputSchema :: "json option"

text \<open>A tool invocation requested by the reasoning engine: \<open>tool_call.id\<close>,
  \<open>tool_call.function.name\<close>, \<open>tool_call.function.arguments\<close> (a JSON text, possibly absent).\<close>

record tool_call =
  tc_id :: string
  fn_name :: string
  fn_arguments :: "string option"

text \<open>The message of a completion choice: optional text and optional tool invocations.\<close>

record completion_message =
  msg_content :: "string option"
  msg_tool_calls :: "tool_call list option"

text \<open>A completion response is its list of choices; the code reads \<open>choices[0]\<close>.\<close>

type_synonym completion = "completion_message list"

text \<open>The turns of the conversation, as the three dict shapes the code builds:
  \<open>{"role": "user", "content": q}\<close>,
  \<open>{"role": "assistant", "content": c, "tool_calls": tcs}\<close> and
  \<open>{"role": "tool", "tool_call_id": i, "content": c}\<close>.\<close>

datatype turn =
    UserTurn string
  | AssistantTurn string "tool_call list"
  | ToolTurn string string

text \<open>A content part of a tool result. Only a text part has the attribute \<open>text\<close>; any other
  part (image, embedded resource) is kept by its class name.\<close>

datatype content_part = TextContent string | NonTextContent string

text \<open>Every request that leaves the orchestrator, in the order issued. An engine call is
  recorded with its \<open>messages\<close> and its \<open>tools\<close> argument (\<open>None\<close> when the call is made without
  one); \<open>model\<close> and \<open>max_tokens\<close> are the same constants in every call and are left out. A
  tool call is recorded with the tool name and the parsed arguments. A request is recorded
  whether it is answered or raises.\<close>

datatype event =
    ListTools
  | EngineCall "turn list" "json list option"
  | ToolCall string json

type_synonym trace = "event list"

text \<open>
  The collaborators of the orchestrator. \<open>list_tools\<close> and \<open>call_tool\<close> are the methods of
  the protocol session (named by a number), \<open>chat_completions_create\<close> is the engine client
  built with an API key. Each of them sees the trace of the requests issued before it, so
  the same request may be answered differently at two moments. \<open>json_loads\<close> and \<open>py_str\<close>
  are the interpreter's \<open>json.loads\<close> and \<open>str\<close>.
\<close>

record env =
  list_tools :: "nat \<Rightarrow> trace \<Rightarrow> exn + tool list"
  call_tool :: "nat \<Rightarrow> trace \<Rightarrow> string \<Rightarrow> json \<Rightarrow> exn + content_part list"
  chat_completions_create ::
    "string \<Rightarrow> trace \<Rightarrow> turn list \<Rightarrow> json list option \<Rightarrow> exn + completion"
  json_loads :: "string \<Rightarrow> exn + json"
  py_str :: "json \<Rightarrow> string"

section \<open>\<open>handlers.py\<close>\<close>

text \<open>The handler object: the session it talks to and the key its engine client was built
  with.\<close>

record handler =
  client_session :: nat
  openai_api_key :: string

definition missing_key_error :: exn where
  "missing_key_error =
     Exn RuntimeError ''Error: OPENAI_API_KEY environment variable not set'' None"

text \<open>\<open>OpenAIQueryHandler.__init__\<close>: \<open>getenv\<close> is the value of \<open>os.getenv("OPENAI_API_KEY")\<close>;
  an unset variable and an empty one are both falsy.\<close>

definition init_handler :: "string option \<Rightarrow> nat \<Rightarrow> exn + handler" where
  "init_handler getenv session =
     (case getenv of
        None \<Rightarrow> Inl missing_key_error
      | Some api_key \<Rightarrow>
          if api_key = [] then Inl missing_key_error
          else Inr \<lparr>client_session = session, openai_api_key = api_key\<rparr>)"

subsection \<open>\<open>_get_tools\<close>\<close>

definition default_schema :: json where
  "default_schema = JObj [(''type'', JStr ''object''), (''properties'', JObj [])]"

text \<open>One element of the list comprehension. \<open>tool.description or "No description"\<close> replaces
  both \<open>None\<close> and the empty string.\<close>

definition format_tool :: "tool \<Rightarrow> json" where
  "format_tool t =
     JObj [(''type'', JStr ''function''),
           (''function'',
            JObj [(''name'', JStr (tool_name t)),
                  (''description'',
                   JStr (case tool_description t of
                           None \<Rightarrow> ''No description''
                         | Some d \<Rightarrow> if d = [] then ''No description'' else d)),
                  (''parameters'',
                   (case tool_inputSchema t of
                      None \<Rightarrow> default_schema
                    | Some s \<Rightarrow> s))])]"

definition get_tools :: "env \<Rightarrow> handler \<Rightarrow> trace \<Rightarrow> (exn + json list) \<times> trace" where
  "get_tools e h tr =
     (case list_tools e (client_session h) tr of
        Inl x \<Rightarrow> (Inl x, tr @ [ListTools])
      | Inr tools \<Rightarrow> (Inr (map format_tool tools), tr @ [ListTools]))"

text \<open>Reading the adapted entry back: \<open>entry["function"][key]\<close>.\<close>

fun dict_get :: "json \<Rightarrow> string \<Rightarrow> json option" where
  "dict_get (JObj kvs) k = map_of kvs k"
| "dict_get _ k = None"

definition function_field :: "json \<Rightarrow> string \<Rightarrow> json option" where
  "function_field entry k =
     (case dict_get entry ''function'' of None \<Rightarrow> None | Some f \<Rightarrow> dict_get f k)"

subsection \<open>\<open>_execute_tool\<close>\<close>

text \<open>The dict \<open>{"log": ..., "message": ...}\<close> that \<open>_execute_tool\<close> returns.\<close>

record tool_result =
  tr_log :: string
  tr_message :: turn

text \<open>\<open>tool_call.function.arguments or "{}"\<close>: an absent or empty text is replaced.\<close>

definition arguments_or_default :: "tool_call \<Rightarrow> string" where
  "arguments_or_default tc =
     (case fn_arguments tc of
        None \<Rightarrow> ''{}''
      | Some s \<Rightarrow> if s = [] then ''{}'' else s)"

text \<open>\<open>result.content[0].text if result.content else ""\<close>. Reading \<open>text\<close> from a part
  that has no such attribute raises \<open>AttributeError\<close>.\<close>

definition attribute_error :: "string \<Rightarrow> exn" where
  "attribute_error cls =
     Exn (OtherException ''AttributeError'')
       ([CHR 0x27] @ cls @ [CHR 0x27] @ '' object has no attribute ''
          @ [CHR 0x27] @ ''text'' @ [CHR 0x27])
       None"

definition first_text :: "content_part list \<Rightarrow> exn + string" where
  "first_text parts =
     (case parts of
        [] \<Rightarrow> Inr []
      | TextContent t # _ \<Rightarrow> Inr t
      | NonTextContent cls # _ \<Rightarrow> Inl (attribute_error cls))"

text \<open>The handler of \<open>except Exception as e\<close>: \<open>content = f"Error: {e}"\<close>,
  \<open>log = f"[{content}]"\<close>.\<close>

definition error_content :: "exn \<Rightarrow> string" where
  "error_content x = ''Error: '' @ exn_text x"

definition error_result :: "tool_call \<Rightarrow> exn \<Rightarrow> tool_result" where
  "error_result tc x =
     \<lparr>tr_log = ''['' @ error_content x @ '']'',
      tr_message = ToolTurn (tc_id tc) (error_content x)\<rparr>"

definition used_log :: "env \<Rightarrow> string \<Rightarrow> json \<Rightarrow> string" where
  "used_log e name args = ''[Used '' @ name @ ''('' @ py_str e args @ '')]''"

text \<open>\<open>_execute_tool\<close> in two parts. \<open>try_call_tool\<close> is the \<open>try\<close> statement: the call, the
  reading of the first content part and the log entry, with every exception caught.
  \<open>json.loads\<close> runs before the \<open>try\<close>: its failure leaves \<open>_execute_tool\<close> as it is, and no
  request is issued.\<close>

definition try_call_tool :: "env \<Rightarrow> handler \<Rightarrow> trace \<Rightarrow> tool_call \<Rightarrow> json \<Rightarrow> tool_result" where
  "try_call_tool e h tr tc tool_args =
     (case call_tool e (client_session h) tr (fn_name tc) tool_args of
        Inl x \<Rightarrow> error_result tc x
      | Inr parts \<Rightarrow>
          (case first_text parts of
             Inl x \<Rightarrow> error_result tc x
           | Inr content \<Rightarrow>
               \<lparr>tr_log = used_log e (fn_name tc) tool_args,
                tr_message = ToolTurn (tc_id tc) content\<rparr>))"

definition execute_tool ::
  "env \<Rightarrow> handler \<Rightarrow> trace \<Rightarrow> tool_call \<Rightarrow> (exn + tool_result) \<times> trace" where
  "execute_tool e h tr tc =
     (case json_loads e (arguments_or_default tc) of
        Inl x \<Rightarrow> (Inl x, tr)
      | Inr tool_args \<Rightarrow>
          (Inr (try_call_tool e h tr tc tool_args), tr @ [ToolCall (fn_name tc) tool_args]))"

subsection \<open>\<open>process_query\<close>\<close>

text \<open>\<open>sep.join(parts)\<close>.\<close>

fun join :: "string \<Rightarrow> string list \<Rightarrow> string" where
  "join sep [] = []"
| "join sep [p] = p"
| "join sep (p # q # ps) = p @ sep @ join sep (q # ps)"

text \<open>The local variables the \<open>for\<close> loop updates: \<open>result_parts\<close> and \<open>messages\<close>.\<close>

record locals =
  result_parts :: "string list"
  messages :: "turn list"

text \<open>\<open>for tool_call in tool_calls\<close>: one invocation after the other; an exception leaving
  \<open>_execute_tool\<close> leaves the loop.\<close>

fun execute_tools ::
  "env \<Rightarrow> handler \<Rightarrow> tool_call list \<Rightarrow> locals \<Rightarrow> trace \<Rightarrow> (exn + locals) \<times> trace" where
  "execute_tools e h [] st tr = (Inr st, tr)"
| "execute_tools e h (tc # tcs) st tr =
     (case execute_tool e h tr tc of
        (Inl x, tr') \<Rightarrow> (Inl x, tr')
      | (Inr tool_result, tr') \<Rightarrow>
          execute_tools e h tcs
            \<lparr>result_parts = result_parts st @ [tr_log tool_result],
             messages = messages st @ [tr_message tool_result]\<rparr> tr')"

text \<open>\<open>choices[0]\<close> of a response without choices.\<close>

definition index_error :: exn where
  "index_error = Exn (OtherException ''IndexError'') ''list index out of range'' None"

text \<open>\<open>if content: result_parts.append(content)\<close>: absent and empty text add nothing.\<close>

definition content_parts :: "string option \<Rightarrow> string list" where
  "content_parts c = (case c of None \<Rightarrow> [] | Some s \<Rightarrow> if s = [] then [] else [s])"

text \<open>\<open>current_message.content or ""\<close>.\<close>

definition content_or_empty :: "string option \<Rightarrow> string" where
  "content_or_empty c = (case c of None \<Rightarrow> [] | Some s \<Rightarrow> s)"

definition answer :: "string list \<Rightarrow> string" where
  "answer parts = ''Assistant: '' @ join [CHR 0x0A] parts"

text \<open>The end of \<open>process_query\<close> after the loop: the second engine call, sent with the
  conversation alone (no \<open>tools\<close> argument), and the final text.\<close>

definition final_call :: "env \<Rightarrow> handler \<Rightarrow> locals \<Rightarrow> trace \<Rightarrow> (exn + string) \<times> trace" where
  "final_call e h st tr =
     (case chat_completions_create e (openai_api_key h) tr (messages st) None of
        Inl x \<Rightarrow> (Inl x, tr @ [EngineCall (messages st) None])
      | Inr final_response \<Rightarrow>
          (case final_response of
             [] \<Rightarrow> (Inl index_error, tr @ [EngineCall (messages st) None])
           | final_message # _ \<Rightarrow>
               (Inr (answer (result_parts st @ content_parts (msg_content final_message))),
                tr @ [EngineCall (messages st) None])))"

text \<open>The part of \<open>process_query\<close> under \<open>if tool_calls := current_message.tool_calls\<close>.\<close>

definition tool_round ::
  "env \<Rightarrow> handler \<Rightarrow> string \<Rightarrow> completion_message \<Rightarrow> tool_call list \<Rightarrow> trace
     \<Rightarrow> (exn + string) \<times> trace" where
  "tool_round e h query current_message tool_calls tr =
     (case execute_tools e h tool_calls
             \<lparr>result_parts = content_parts (msg_content current_message),
              messages = [UserTurn query,
                          AssistantTurn (content_or_empty (msg_content current_message)) tool_calls]\<rparr>
             tr of
        (Inl x, tr') \<Rightarrow> (Inl x, tr')
      | (Inr st, tr') \<Rightarrow> final_call e h st tr')"

text \<open>\<open>process_query\<close>. The tool list is fetched while the arguments of the first engine call
  are evaluated, so a failure of \<open>list_tools\<close> comes before any engine call. An absent and an
  empty \<open>tool_calls\<close> are both falsy.\<close>

definition process_query :: "env \<Rightarrow> handler \<Rightarrow> string \<Rightarrow> trace \<Rightarrow> (exn + string) \<times> trace" where
  "process_query e h query tr =
     (case get_tools e h tr of
        (Inl x, tr1) \<Rightarrow> (Inl x, tr1)
      | (Inr tools, tr1) \<Rightarrow>
          (case chat_completions_create e (openai_api_key h) tr1 [UserTurn query] (Some tools) of
             Inl x \<Rightarrow> (Inl x, tr1 @ [EngineCall [UserTurn query] (Some tools)])
           | Inr initial_response \<Rightarrow>
               (case initial_response of
                  [] \<Rightarrow> (Inl index_error, tr1 @ [EngineCall [UserTurn query] (Some tools)])
                | current_message # _ \<Rightarrow>
                    (case msg_tool_calls current_message of
                       None \<Rightarrow>
                         (Inr (answer (content_parts (msg_content current_message))),
                          tr1 @ [EngineCall [UserTurn query] (Some tools)])
                     | Some tool_calls \<Rightarrow>
                         if tool_calls = [] then
                           (Inr (answer (content_parts (msg_content current_message))),
                            tr1 @ [EngineCall [UserTurn query] (Some tools)])
                         else
                           tool_round e h query current_message tool_calls
                             (tr1 @ [EngineCall [UserTurn query] (Some tools)])))))"

section \<open>Vocabulary of the statements\<close>

text \<open>The tool requests of a list of invocations whose argument texts parsed to \<open>args\<close>, the
  two kinds of request told apart, the requests one run of \<open>process_query\<close> adds to the
  trace, and the first engine call, which carries the adapted tool list.\<close>

definition tool_events :: "tool_call list \<Rightarrow> json list \<Rightarrow> trace" where
  "tool_events tcs args = map (\<lambda>(tc, a). ToolCall (fn_name tc) a) (zip tcs args)"

fun is_engine_call :: "event \<Rightarrow> bool" where
  "is_engine_call (EngineCall ms ts) = True"
| "is_engine_call _ = False"

fun is_tool_call :: "event \<Rightarrow> bool" where
  "is_tool_call (ToolCall n a) = True"
| "is_tool_call _ = False"

definition requests :: "env \<Rightarrow> handler \<Rightarrow> string \<Rightarrow> trace \<Rightarrow> trace" where
  "requests e h q tr = drop (length tr) (snd (process_query e h q tr))"

definition first_request :: "string \<Rightarrow> tool list \<Rightarrow> event" where
  "first_request q tools = EngineCall [UserTurn q] (Some (map format_tool tools))"

section \<open>\<open>mcp_client.py\<close>\<close>

text \<open>
  What \<open>_connect_to_server\<close> asks of the platform: \<open>Path.resolve\<close> and \<open>Path.exists\<close>,
  \<open>sys.platform\<close> and \<open>sys.executable\<close>, and the three steps that may raise: entering
  \<open>stdio_client\<close> (which spawns the server process and yields its streams, named by a
  number), entering \<open>ClientSession(read, write)\<close> (which yields the session) and
  \<open>initialize\<close> (the handshake; \<open>None\<close> when it raises nothing).
\<close>

record platform =
  path_resolve :: "string \<Rightarrow> string"
  path_exists :: "string \<Rightarrow> bool"
  sys_platform :: string
  sys_executable :: string
  stdio_client :: "string \<Rightarrow> string list \<Rightarrow> exn + nat"
  open_session :: "nat \<Rightarrow> exn + nat"
  initialize :: "nat \<Rightarrow> exn option"

text \<open>The steps \<open>_connect_to_server\<close> attempts, in order. \<open>Spawn\<close> is recorded for every
  attempt to start the child process, also one that raises.\<close>

datatype conn_event =
    Spawn string "string list"
  | OpenSession nat
  | Initialize nat

definition not_found_error :: "string \<Rightarrow> exn" where
  "not_found_error server_path =
     Exn RuntimeError (''Server script not found: '' @ server_path) None"

text \<open>\<open>raise RuntimeError(f"Failed to connect to server: {e}") from e\<close>.\<close>

definition connect_error :: "exn \<Rightarrow> exn" where
  "connect_error x = Exn RuntimeError (''Failed to connect to server: '' @ exn_text x) (Some x)"

text \<open>The command is built by a branch on the platform whose two arms are the same.\<close>

definition server_command :: "platform \<Rightarrow> string \<Rightarrow> string \<times> string list" where
  "server_command p server_path =
     (if sys_platform p = ''win32'' then (sys_executable p, [server_path])
      else (sys_executable p, [server_path]))"

definition connect_to_server :: "platform \<Rightarrow> string \<Rightarrow> (exn + nat) \<times> conn_event list" where
  "connect_to_server p path =
     (let server_path = path_resolve p path in
      if \<not> path_exists p server_path then (Inl (not_found_error server_path), [])
      else
        (case server_command p server_path of
           (command, args) \<Rightarrow>
             (case stdio_client p command args of
                Inl x \<Rightarrow> (Inl (connect_error x), [Spawn command args])
              | Inr streams \<Rightarrow>
                  (case open_session p streams of
                     Inl x \<Rightarrow> (Inl (connect_error x), [Spawn command args, OpenSession streams])
                   | Inr session \<Rightarrow>
                       (case initialize p session of
                          Some x \<Rightarrow>
                            (Inl (connect_error x),
                             [Spawn command args, OpenSession streams, Initialize session])
                        | None \<Rightarrow>
                            (Inr session,
                             [Spawn command args, OpenSession streams, Initialize session]))))))"

section \<open>\<open>__main__.py\<close>\<close>

text \<open>The parsed command line: \<open>args.server_path\<close> (as \<open>str\<close> gives it), \<open>args.members\<close>,
  \<open>args.chat\<close>.\<close>

record cli_args =
  server_path :: string
  members :: bool
  chat :: bool

text \<open>What a run of \<open>main\<close> leaves behind: the lines printed, the exception that left
  \<open>main\<close> (if any) and the connection steps attempted.\<close>

record outcome =
  printed :: "string list"
  raised :: "exn option"
  attempted :: "conn_event list"

definition script_not_found_line :: "string \<Rightarrow> string" where
  "script_not_found_line path =
     ''Error: Server script '' @ [CHR 0x27] @ path @ [CHR 0x27] @ '' not found''"

text \<open>
  \<open>main\<close>. \<open>body\<close> stands for what runs inside \<open>async with\<close> once the client is connected
  (\<open>list_all_members\<close> or \<open>run_chat\<close>, chosen by the arguments): the lines it prints and the
  exception that leaves it, if any, the closing of the exit stack included. \<open>__aenter__\<close> is
  \<open>_connect_to_server\<close>; when it raises, the body and \<open>__aexit__\<close> do not run.
  \<open>except RuntimeError\<close> catches a \<open>RuntimeError\<close> from \<open>__aenter__\<close> or from the body and
  prints it; any other exception leaves \<open>main\<close>.
\<close>

definition main ::
  "platform \<Rightarrow> (cli_args \<Rightarrow> nat \<Rightarrow> string list \<times> exn option) \<Rightarrow> cli_args \<Rightarrow> outcome" where
  "main p body args =
     (if \<not> path_exists p (server_path args) then
        \<lparr>printed = [script_not_found_line (server_path args)], raised = None, attempted = []\<rparr>
      else
        (case connect_to_server p (server_path args) of
           (Inl x, evs) \<Rightarrow>
             (case exn_class x of
                RuntimeError \<Rightarrow> \<lparr>printed = [exn_text x], raised = None, attempted = evs\<rparr>
              | OtherException c \<Rightarrow> \<lparr>printed = [], raised = Some x, attempted = evs\<rparr>)
         | (Inr session, evs) \<Rightarrow>
             (case body args session of
                (out, None) \<Rightarrow> \<lparr>printed = out, raised = None, attempted = evs\<rparr>
              | (out, Some x) \<Rightarrow>
                  (case exn_class x of
                     RuntimeError \<Rightarrow>
                       \<lparr>printed = out @ [exn_text x], raised = None, attempted = evs\<rparr>
                   | OtherException c \<Rightarrow>
                       \<lparr>printed = out, raised = Some x, attempted = evs\<rparr>))))"

text \<open>
  The exit status of the process that runs \<open>asyncio.run(main())\<close> as its last statement:
  the interpreter exits with 0 when \<open>main\<close> returns and with 1 when an exception leaves it.
  Nothing in the package calls \<open>sys.exit\<close>.
\<close>

definition exit_status :: "outcome \<Rightarrow> nat" where
  "exit_status r = (case raised r of None \<Rightarrow> 0 | Some x \<Rightarrow> 1)"

section \<open>Example collaborators\<close>

text \<open>
  A server with one tool \<open>echo\<close> and an engine that asks for \<open>echo\<close> once when it is given
  the tool list and answers \<open>Done.\<close> when it is not. \<open>sample_loads\<close> and \<open>sample_str\<close> agree
  with \<open>json.loads\<close> and \<open>str\<close> on the texts and values the examples use, and on no others:
  \<open>{}\<close> and \<open>{"text": "hi"}\<close> parse, \<open>{\<close> is rejected with the message \<open>json.loads\<close> gives for
  it, and the two documents print as Python prints a dict.
\<close>

definition echo_tool :: tool where
  "echo_tool =
     \<lparr>tool_name = ''echo'', tool_description = Some ''echoes input'', tool_inputSchema = None\<rparr>"

definition bare_tool :: tool where
  "bare_tool = \<lparr>tool_name = ''ping'', tool_description = None, tool_inputSchema = None\<rparr>"

definition hi_text :: string where
  \<open>hi_text = ''{"text": "hi"}''\<close>

definition hi_args :: json where
  "hi_args = JObj [(''text'', JStr ''hi'')]"

definition decode_error :: exn where
  "decode_error =
     Exn (OtherException ''JSONDecodeError'')
       ''Expecting property name enclosed in double quotes: line 1 column 2 (char 1)'' None"

definition sample_loads :: "string \<Rightarrow> exn + json" where
  "sample_loads s =
     (if s = ''{}'' then Inr (JObj [])
      else if s = hi_text then Inr hi_args
      else Inl decode_error)"

definition sample_str :: "json \<Rightarrow> string" where
  "sample_str j = (if j = hi_args then ''{'text': 'hi'}'' else ''{}'')"

definition echo_call :: tool_call where
  "echo_call = \<lparr>tc_id = ''call_1'', fn_name = ''echo'', fn_arguments = Some hi_text\<rparr>"

definition tool_failure :: exn where
  "tool_failure = Exn (OtherException ''McpError'') ''Connection closed'' None"

definition echo_env :: env where
  "echo_env =
     \<lparr>list_tools = (\<lambda>s tr. Inr [echo_tool, bare_tool]),
      call_tool = (\<lambda>s tr name args.
         if name = ''echo'' then Inr [TextContent ''hi''] else Inl tool_failure),
      chat_completions_create = (\<lambda>k tr ms tools.
         case tools of
           Some ts \<Rightarrow> Inr [\<lparr>msg_content = None, msg_tool_calls = Some [echo_call]\<rparr>]
         | None \<Rightarrow> Inr [\<lparr>msg_content = Some ''Done.'', msg_tool_calls = None\<rparr>]),
      json_loads = sample_loads,
      py_str = sample_str\<rparr>"

definition demo_handler :: handler where
  "demo_handler = \<lparr>client_session = 0, openai_api_key = ''sk-demo''\<rparr>"

text \<open>An engine that answers in text alone; an engine that asks for \<open>echo\<close> with the
  malformed argument text \<open>{\<close>; an invocation without arguments.\<close>

definition plain_env :: env where
  "plain_env = echo_env\<lparr>chat_completions_create := (\<lambda>k tr ms tools.
       Inr [\<lparr>msg_content = Some ''You have an echo tool.'', msg_tool_calls = None\<rparr>])\<rparr>"

definition bad_call :: tool_call where
  "bad_call = \<lparr>tc_id = ''call_1'', fn_name = ''echo'', fn_arguments = Some ''{''\<rparr>"

definition bad_args_env :: env where
  "bad_args_env = echo_env\<lparr>chat_completions_create := (\<lambda>k tr ms tools.
       case tools of
         Some ts \<Rightarrow> Inr [\<lparr>msg_content = None, msg_tool_calls = Some [bad_call]\<rparr>]
       | None \<Rightarrow> Inr [\<lparr>msg_content = Some ''Done.'', msg_tool_calls = None\<rparr>])\<rparr>"

definition no_args_call :: tool_call where
  "no_args_call = \<lparr>tc_id = ''call_2'', fn_name = ''echo'', fn_arguments = None\<rparr>"

text \<open>An engine that asks for the tool \<open>ping\<close>, whose call fails, and then for \<open>echo\<close>; an
  engine whose second call fails.\<close>

definition ping_call :: tool_call where
  "ping_call = \<lparr>tc_id = ''call_0'', fn_name = ''ping'', fn_arguments = None\<rparr>"

definition failing_tool_env :: env where
  "failing_tool_env = echo_env\<lparr>chat_completions_create := (\<lambda>k tr ms tools.
       case tools of
         Some ts \<Rightarrow> Inr [\<lparr>msg_content = None, msg_tool_calls = Some [ping_call, echo_call]\<rparr>]
       | None \<Rightarrow> Inr [\<lparr>msg_content = Some ''Done.'', msg_tool_calls = None\<rparr>])\<rparr>"

definition engine_failure :: exn where
  "engine_failure = Exn (OtherException ''APIConnectionError'') ''Connection error.'' None"

definition failing_engine_env :: env where
  "failing_engine_env = echo_env\<lparr>chat_completions_create := (\<lambda>k tr ms tools.
       case tools of
         Some ts \<Rightarrow> Inr [\<lparr>msg_content = Some ''Let me check.'', msg_tool_calls = Some [echo_call]\<rparr>]
       | None \<Rightarrow> Inl engine_failure)\<rparr>"

text \<open>A platform on which only \<open>server.py\<close> exists (resolved to \<open>/srv/server.py\<close>) and on
  which starting the server process fails; a body that does nothing.\<close>

definition spawn_failure :: exn where
  "spawn_failure =
     Exn (OtherException ''PermissionError'') ''[Errno 13] Permission denied'' None"

definition broken_platform :: platform where
  "broken_platform =
     \<lparr>path_resolve = (\<lambda>path. ''/srv/'' @ path),
      path_exists = (\<lambda>path. path = ''server.py'' \<or> path = ''/srv/server.py''),
      sys_platform = ''linux'',
      sys_executable = ''/usr/bin/python3'',
      stdio_client = (\<lambda>command args. Inl spawn_failure),
      open_session = (\<lambda>streams. Inr 1),
      initialize = (\<lambda>session. None)\<rparr>"

definition no_body :: "cli_args \<Rightarrow> nat \<Rightarrow> string list \<times> exn option" where
  "no_body args session = ([], None)"

definition members_of :: "string \<Rightarrow> cli_args" where
  "members_of path = \<lparr>server_path = path, members = True, chat = False\<rparr>"

text \<open>An engine that asks for \<open>ping\<close>, whose call fails, and then for \<open>echo\<close> with the
  malformed argument text \<open>{\<close>.\<close>

definition failing_then_bad_env :: env where
  "failing_then_bad_env = echo_env\<lparr>chat_completions_create := (\<lambda>k tr ms tools.
       case tools of
         Some ts \<Rightarrow> Inr [\<lparr>msg_content = None, msg_tool_calls = Some [ping_call, bad_call]\<rparr>]
       | None \<Rightarrow> Inr [\<lparr>msg_content = Some ''Done.'', msg_tool_calls = None\<rparr>])\<rparr>"

section \<open>Shared lemmas\<close>

lemmas echo_defs =
  echo_env_def demo_handler_def echo_tool_def bare_tool_def echo_call_def hi_text_def
  hi_args_def sample_loads_def sample_str_def decode_error_def tool_failure_def

lemmas code_defs =
  process_query_def get_tools_def tool_round_def final_call_def execute_tool_def
  try_call_tool_def first_text_def error_result_def error_content_def used_log_def
  arguments_or_default_def answer_def content_parts_def content_or_empty_def
  format_tool_def default_schema_def first_request_def requests_def tool_events_def

lemma execute_tools_all_parse:
  "map (\<lambda>tc. json_loads e (arguments_or_default tc)) tcs = map Inr args \<Longrightarrow>
   \<exists>rs. length rs = length tcs
      \<and> (\<forall>i < length tcs. rs ! i = try_call_tool e h (tr @ take i (tool_events tcs args)) (tcs ! i) (args ! i))
      \<and> execute_tools e h tcs st tr =
          (Inr \<lparr>result_parts = result_parts st @ map tr_log rs,
                messages = messages st @ map tr_message rs\<rparr>,
           tr @ tool_events tcs args)"
proof (induction tcs arbitrary: args st tr)
  case Nil
  then show ?case by (simp add: tool_events_def)
next
  case (Cons tc tcs)
  from Cons.prems obtain a as where args: "args = a # as"
    and pa: "json_loads e (arguments_or_default tc) = Inr a"
    and rest: "map (\<lambda>tc. json_loads e (arguments_or_default tc)) tcs = map Inr as"
    by (cases args) auto
  let ?r = "try_call_tool e h tr tc a"
  let ?st = "\<lparr>result_parts = result_parts st @ [tr_log ?r], messages = messages st @ [tr_message ?r]\<rparr>"
  let ?tr = "tr @ [ToolCall (fn_name tc) a]"
  from Cons.IH [OF rest, of ?tr ?st] obtain rs where
    len: "length rs = length tcs"
    and nth: "\<forall>i < length tcs. rs ! i = try_call_tool e h (?tr @ take i (tool_events tcs as)) (tcs ! i) (as ! i)"
    and run: "execute_tools e h tcs ?st ?tr =
          (Inr \<lparr>result_parts = result_parts ?st @ map tr_log rs,
                messages = messages ?st @ map tr_message rs\<rparr>,
           ?tr @ tool_events tcs as)"
    by blast
  have ev: "tool_events (tc # tcs) args = ToolCall (fn_name tc) a # tool_events tcs as"
    by (simp add: tool_events_def args)
  have "\<forall>i < length (tc # tcs). (?r # rs) ! i
           = try_call_tool e h (tr @ take i (tool_events (tc # tcs) args)) ((tc # tcs) ! i) (args ! i)"
  proof (intro allI impI)
    fix i assume "i < length (tc # tcs)"
    then show "(?r # rs) ! i
           = try_call_tool e h (tr @ take i (tool_events (tc # tcs) args)) ((tc # tcs) ! i) (args ! i)"
      using nth ev by (cases i) (simp_all add: args)
  qed
  moreover have "execute_tools e h (tc # tcs) st tr =
          (Inr \<lparr>result_parts = result_parts st @ map tr_log (?r # rs),
                messages = messages st @ map tr_message (?r # rs)\<rparr>,
           tr @ tool_events (tc # tcs) args)"
    using run by (simp add: execute_tool_def pa ev)
  moreover have "length (?r # rs) = length (tc # tcs)" using len by simp
  ultimately show ?case by blast
qed

lemma execute_tools_append:
  "execute_tools e h (xs @ ys) st tr =
     (case execute_tools e h xs st tr of
        (Inl x, tr') \<Rightarrow> (Inl x, tr')
      | (Inr st', tr') \<Rightarrow> execute_tools e h ys st' tr')"
proof (induction xs arbitrary: st tr)
  case Nil
  show ?case by simp
next
  case (Cons x xs)
  show ?case
    by (cases "execute_tool e h tr x") (auto simp: Cons.IH split: sum.splits)
qed

lemma execute_tools_only_tool_calls:
  "\<exists>evs. snd (execute_tools e h tcs st tr) = tr @ evs \<and> (\<forall>ev \<in> set evs. is_tool_call ev)"
proof (induction tcs arbitrary: st tr)
  case Nil
  show ?case by simp
next
  case (Cons tc tcs)
  show ?case
  proof (cases "json_loads e (arguments_or_default tc)")
    case (Inl x)
    then show ?thesis by (simp add: execute_tool_def)
  next
    case (Inr a)
    let ?r = "try_call_tool e h tr tc a"
    let ?st = "\<lparr>result_parts = result_parts st @ [tr_log ?r], messages = messages st @ [tr_message ?r]\<rparr>"
    from Cons.IH [of ?st "tr @ [ToolCall (fn_name tc) a]"] obtain evs where
      "snd (execute_tools e h tcs ?st (tr @ [ToolCall (fn_name tc) a])) = (tr @ [ToolCall (fn_name tc) a]) @ evs"
      "\<forall>ev \<in> set evs. is_tool_call ev" by blast
    then have "snd (execute_tools e h (tc # tcs) st tr) = tr @ (ToolCall (fn_name tc) a # evs)
        \<and> (\<forall>ev \<in> set (ToolCall (fn_name tc) a # evs). is_tool_call ev)"
      using Inr by (simp add: execute_tool_def)
    then show ?thesis by blast
  qed
qed

lemma process_query_first_phase:
  assumes "list_tools e (client_session h) tr = Inr tools"
    and "chat_completions_create e (openai_api_key h) (tr @ [ListTools]) [UserTurn q]
           (Some (map format_tool tools)) = Inr (m # ms)"
    and "msg_tool_calls m = Some tcs" and "tcs \<noteq> []"
  shows "process_query e h q tr = tool_round e h q m tcs (tr @ [ListTools, first_request q tools])"
  using assms by (simp add: process_query_def get_tools_def first_request_def)

lemma join_content_parts: "join sep (content_parts c) = content_or_empty c"
  by (cases c) (simp_all add: content_parts_def content_or_empty_def)


lemma tool_events_filters:
  "filter is_tool_call (tool_events tcs args) = tool_events tcs args"
  "filter is_engine_call (tool_events tcs args) = []"
  by (induction tcs args rule: list_induct2') (simp_all add: tool_events_def)

lemma tool_events_length:
  "length args = length tcs \<Longrightarrow> length (tool_events tcs args) = length tcs"
  by (simp add: tool_events_def)

lemma tool_events_nth:
  "length args = length tcs \<Longrightarrow> i < length tcs \<Longrightarrow>
     tool_events tcs args ! i = ToolCall (fn_name (tcs ! i)) (args ! i)"
  by (simp add: tool_events_def)

lemma tool_round_all_parse:
  assumes P: "map (\<lambda>tc. json_loads e (arguments_or_default tc)) tcs = map Inr args"
  shows "\<exists>rs. length rs = length tcs
      \<and> (\<forall>i < length tcs. rs ! i = try_call_tool e h (tr @ take i (tool_events tcs args)) (tcs ! i) (args ! i))
      \<and> tool_round e h q m tcs tr =
           final_call e h
             \<lparr>result_parts = content_parts (msg_content m) @ map tr_log rs,
              messages = [UserTurn q, AssistantTurn (content_or_empty (msg_content m)) tcs]
                           @ map tr_message rs\<rparr>
             (tr @ tool_events tcs args)"
proof -
  let ?st = "\<lparr>result_parts = content_parts (msg_content m),
              messages = [UserTurn q, AssistantTurn (content_or_empty (msg_content m)) tcs]\<rparr>"
  from execute_tools_all_parse [OF P, of h tr ?st] obtain rs where
    "length rs = length tcs"
    "\<forall>i < length tcs. rs ! i = try_call_tool e h (tr @ take i (tool_events tcs args)) (tcs ! i) (args ! i)"
    "execute_tools e h tcs ?st tr =
          (Inr \<lparr>result_parts = result_parts ?st @ map tr_log rs,
                messages = messages ?st @ map tr_message rs\<rparr>,
           tr @ tool_events tcs args)"
    by blast
  then show ?thesis by (auto simp: tool_round_def)
qed

lemma final_call_trace:
  "snd (final_call e h st tr) = tr @ [EngineCall (messages st) None]"
  by (simp add: final_call_def split: sum.splits list.splits)

lemma final_call_returns:
  "chat_completions_create e (openai_api_key h) tr (messages st) None = Inr (f # fs) \<Longrightarrow>
     fst (final_call e h st tr) = Inr (answer (result_parts st @ content_parts (msg_content f)))"
  by (simp add: final_call_def)

lemma final_call_raises:
  "chat_completions_create e (openai_api_key h) tr (messages st) None = Inl x \<Longrightarrow>
     fst (final_call e h st tr) = Inl x"
  by (simp add: final_call_def)

lemma process_query_all_parse:
  assumes L: "list_tools e (client_session h) tr = Inr tools"
    and F: "chat_completions_create e (openai_api_key h) (tr @ [ListTools]) [UserTurn q]
              (Some (map format_tool tools)) = Inr (m # ms)"
    and T: "msg_tool_calls m = Some tcs" and N: "tcs \<noteq> []"
    and P: "map (\<lambda>tc. json_loads e (arguments_or_default tc)) tcs = map Inr args"
  shows "\<exists>rs. length rs = length tcs
     \<and> requests e h q tr =
          [ListTools, first_request q tools] @ tool_events tcs args
            @ [EngineCall ([UserTurn q, AssistantTurn (content_or_empty (msg_content m)) tcs]
                             @ map tr_message rs) None]
     \<and> length (filter is_engine_call (requests e h q tr)) = 2
     \<and> filter is_tool_call (requests e h q tr) = tool_events tcs args
     \<and> length (tool_events tcs args) = length tcs
     \<and> (\<forall>i < length tcs.
           tool_events tcs args ! i = ToolCall (fn_name (tcs ! i)) (args ! i)
         \<and> rs ! i = try_call_tool e h
                       (tr @ [ListTools, first_request q tools] @ take i (tool_events tcs args))
                       (tcs ! i) (args ! i))
     \<and> (\<forall>f fs. chat_completions_create e (openai_api_key h)
                  (tr @ [ListTools, first_request q tools] @ tool_events tcs args)
                  ([UserTurn q, AssistantTurn (content_or_empty (msg_content m)) tcs]
                     @ map tr_message rs) None = Inr (f # fs)
           \<longrightarrow> fst (process_query e h q tr) =
                 Inr (answer (content_parts (msg_content m) @ map tr_log rs
                                @ content_parts (msg_content f))))"
proof -
  let ?tr0 = "tr @ [ListTools, first_request q tools]"
  have len: "length args = length tcs"
    using P by (metis length_map)
  from tool_round_all_parse [OF P, of h ?tr0 q m] obtain rs where
    rl: "length rs = length tcs"
    and rn: "\<forall>i < length tcs. rs ! i = try_call_tool e h (?tr0 @ take i (tool_events tcs args)) (tcs ! i) (args ! i)"
    and run: "tool_round e h q m tcs ?tr0 =
           final_call e h
             \<lparr>result_parts = content_parts (msg_content m) @ map tr_log rs,
              messages = [UserTurn q, AssistantTurn (content_or_empty (msg_content m)) tcs]
                           @ map tr_message rs\<rparr>
             (?tr0 @ tool_events tcs args)"
    by blast
  let ?st = "\<lparr>result_parts = content_parts (msg_content m) @ map tr_log rs,
              messages = [UserTurn q, AssistantTurn (content_or_empty (msg_content m)) tcs]
                           @ map tr_message rs\<rparr>"
  have pq: "process_query e h q tr = final_call e h ?st (?tr0 @ tool_events tcs args)"
    using process_query_first_phase [OF L F T N] run by simp
  have req: "requests e h q tr =
          [ListTools, first_request q tools] @ tool_events tcs args
            @ [EngineCall ([UserTurn q, AssistantTurn (content_or_empty (msg_content m)) tcs]
                             @ map tr_message rs) None]"
    by (simp add: requests_def pq final_call_trace)
  have c2: "length (filter is_engine_call (requests e h q tr)) = 2"
    by (simp add: req tool_events_filters first_request_def)
  have c3: "filter is_tool_call (requests e h q tr) = tool_events tcs args"
    by (simp add: req tool_events_filters first_request_def)
  have c5: "\<forall>i < length tcs.
           tool_events tcs args ! i = ToolCall (fn_name (tcs ! i)) (args ! i)
         \<and> rs ! i = try_call_tool e h
                       (tr @ [ListTools, first_request q tools] @ take i (tool_events tcs args))
                       (tcs ! i) (args ! i)"
    using rn tool_events_nth [OF len] by simp
  have c6: "\<forall>f fs. chat_completions_create e (openai_api_key h)
                  (tr @ [ListTools, first_request q tools] @ tool_events tcs args)
                  ([UserTurn q, AssistantTurn (content_or_empty (msg_content m)) tcs]
                     @ map tr_message rs) None = Inr (f # fs)
           \<longrightarrow> fst (process_query e h q tr) =
                 Inr (answer (content_parts (msg_content m) @ map tr_log rs
                                @ content_parts (msg_content f)))"
  proof (intro allI impI)
    fix f fs
    assume "chat_completions_create e (openai_api_key h)
                  (tr @ [ListTools, first_request q tools] @ tool_events tcs args)
                  ([UserTurn q, AssistantTurn (content_or_empty (msg_content m)) tcs]
                     @ map tr_message rs) None = Inr (f # fs)"
    then have "chat_completions_create e (openai_api_key h) (?tr0 @ tool_events tcs args)
                 (messages ?st) None = Inr (f # fs)" by simp
    from final_call_returns [OF this] show "fst (process_query e h q tr) =
                 Inr (answer (content_parts (msg_content m) @ map tr_log rs
                                @ content_parts (msg_content f)))"
      by (simp add: pq)
  qed
  from rl req c2 c3 tool_events_length [OF len] c5 c6 show ?thesis by blast
qed


lemma execute_tools_stops_at_parse_failure:
  assumes P: "map (\<lambda>c. json_loads e (arguments_or_default c)) pre = map Inr pargs"
    and X: "json_loads e (arguments_or_default tc) = Inl x"
  shows "execute_tools e h (pre @ tc # post) st tr = (Inl x, tr @ tool_events pre pargs)"
proof -
  from execute_tools_all_parse [OF P, of h tr st] obtain rs :: "tool_result list" where
    "length rs = length pre"
    "execute_tools e h pre st tr =
          (Inr \<lparr>result_parts = result_parts st @ map tr_log rs,
                messages = messages st @ map tr_message rs\<rparr>,
           tr @ tool_events pre pargs)" by blast
  then show ?thesis
    by (simp add: execute_tools_append execute_tool_def X)
qed

lemma try_call_tool_failure:
  "call_tool e (client_session h) tr (fn_name tc) a = Inl x
     \<or> (\<exists>parts. call_tool e (client_session h) tr (fn_name tc) a = Inr parts
                 \<and> first_text parts = Inl x)
   \<Longrightarrow> try_call_tool e h tr tc a = error_result tc x"
  by (auto simp: try_call_tool_def)

lemma tool_round_second_call_fails:
  assumes S: "snd (tool_round e h q m tcs (tr1 @ [EngineCall a (Some b)])) = tr' @ [EngineCall c None]"
    and X: "chat_completions_create e (openai_api_key h) tr' c None = Inl x"
  shows "fst (tool_round e h q m tcs (tr1 @ [EngineCall a (Some b)])) = Inl x"
proof -
  let ?st = "\<lparr>result_parts = content_parts (msg_content m),
              messages = [UserTurn q, AssistantTurn (content_or_empty (msg_content m)) tcs]\<rparr>"
  let ?tr0 = "tr1 @ [EngineCall a (Some b)]"
  obtain r tr2 where R: "execute_tools e h tcs ?st ?tr0 = (r, tr2)"
    by (cases "execute_tools e h tcs ?st ?tr0")
  from execute_tools_only_tool_calls [of e h tcs ?st ?tr0] R obtain evs where
    tr2: "tr2 = ?tr0 @ evs" and tc: "\<forall>ev \<in> set evs. is_tool_call ev" by auto
  show ?thesis
  proof (cases r)
    case (Inl y)
    with R S have E: "tr2 = tr' @ [EngineCall c None]" by (simp add: tool_round_def)
    have False
    proof (cases evs rule: rev_cases)
      case Nil
      with tr2 E show False by simp
    next
      case (snoc evs' ev)
      with tr2 E have "ev = EngineCall c None" by simp
      moreover from snoc tc have "is_tool_call ev" by simp
      ultimately show False by simp
    qed
    then show ?thesis ..
  next
    case (Inr st)
    with R have TR: "tool_round e h q m tcs ?tr0 = final_call e h st tr2"
      by (simp add: tool_round_def)
    with S have "tr2 @ [EngineCall (messages st) None] = tr' @ [EngineCall c None]"
      by (simp add: final_call_trace)
    then have "tr' = tr2" "c = messages st" by simp_all
    with X have "chat_completions_create e (openai_api_key h) tr2 (messages st) None = Inl x"
      by simp
    from final_call_raises [OF this] TR show ?thesis by simp
  qed
qed

lemmas platform_defs = spawn_failure_def broken_platform_def

lemma exn_not_its_own_cause: "Exn c t (Some x) \<noteq> x"
proof
  assume "Exn c t (Some x) = x"
  then have "size (Exn c t (Some x)) = size x" by simp
  then show False by simp
qed

lemma connect_to_server_raises_RuntimeError:
  "fst (connect_to_server p path) = Inl x \<Longrightarrow> exn_class x = RuntimeError"
  by (auto simp: connect_to_server_def Let_def not_found_error_def connect_error_def
        split: if_splits prod.splits sum.splits option.splits)

lemma execute_tools_error_origin:
  "fst (execute_tools e h tcs st tr) = Inl x \<Longrightarrow> \<exists>s. json_loads e s = Inl x"
proof (induction tcs arbitrary: st tr)
  case Nil
  then show ?case by simp
next
  case (Cons tc tcs)
  show ?case
  proof (cases "json_loads e (arguments_or_default tc)")
    case (Inl y)
    with Cons.prems have "y = x" by (simp add: execute_tool_def)
    with Inl show ?thesis by blast
  next
    case (Inr a)
    with Cons.prems Cons.IH show ?thesis by (simp add: execute_tool_def)
  qed
qed

lemma final_call_error_origin:
  "fst (final_call e h st tr) = Inl x \<Longrightarrow>
     x = index_error \<or> (\<exists>t ms ts. chat_completions_create e (openai_api_key h) t ms ts = Inl x)"
  by (auto simp: final_call_def split: sum.splits list.splits)

lemma tool_round_error_origin:
  assumes "fst (tool_round e h q m tcs tr) = Inl x"
  shows "x = index_error
     \<or> (\<exists>t ms ts. chat_completions_create e (openai_api_key h) t ms ts = Inl x)
     \<or> (\<exists>s. json_loads e s = Inl x)"
proof -
  let ?st = "\<lparr>result_parts = content_parts (msg_content m),
              messages = [UserTurn q, AssistantTurn (content_or_empty (msg_content m)) tcs]\<rparr>"
  obtain r tr2 where R: "execute_tools e h tcs ?st tr = (r, tr2)"
    by (cases "execute_tools e h tcs ?st tr")
  show ?thesis
  proof (cases r)
    case (Inl y)
    with R assms have "y = x" by (simp add: tool_round_def)
    with R Inl have "fst (execute_tools e h tcs ?st tr) = Inl x" by simp
    from execute_tools_error_origin [OF this] show ?thesis by blast
  next
    case (Inr st)
    with R assms have "fst (final_call e h st tr2) = Inl x" by (simp add: tool_round_def)
    from final_call_error_origin [OF this] show ?thesis by blast
  qed
qed

lemma process_query_error_origin:
  assumes "fst (process_query e h q tr) = Inl x"
  shows "x = index_error
     \<or> (\<exists>t. list_tools e (client_session h) t = Inl x)
     \<or> (\<exists>t ms ts. chat_completions_create e (openai_api_key h) t ms ts = Inl x)
     \<or> (\<exists>s. json_loads e s = Inl x)"
proof (cases "list_tools e (client_session h) tr")
  case (Inl y)
  with assms show ?thesis by (auto simp: process_query_def get_tools_def)
next
  case L: (Inr tools)
  show ?thesis
  proof (cases "chat_completions_create e (openai_api_key h) (tr @ [ListTools]) [UserTurn q]
                  (Some (map format_tool tools))")
    case (Inl y)
    with assms L have "y = x" by (simp add: process_query_def get_tools_def)
    with Inl show ?thesis by blast
  next
    case F: (Inr resp)
    show ?thesis
    proof (cases resp)
      case Nil
      with assms L F show ?thesis by (simp add: process_query_def get_tools_def)
    next
      case (Cons m ms)
      show ?thesis
      proof (cases "msg_tool_calls m = None \<or> msg_tool_calls m = Some []")
        case True
        with assms L F Cons show ?thesis by (auto simp: process_query_def get_tools_def)
      next
        case False
        then obtain tcs where T: "msg_tool_calls m = Some tcs" and N: "tcs \<noteq> []" by auto
        from L F Cons T N assms have "fst (tool_round e h q m tcs
             (tr @ [ListTools, EngineCall [UserTurn q] (Some (map format_tool tools))])) = Inl x"
          by (simp add: process_query_def get_tools_def)
        from tool_round_error_origin [OF this] show ?thesis by blast
      qed
    qed
  qed
qed

lemma tool_events_append:
  "length pargs = length pre \<Longrightarrow>
     tool_events (pre @ tc # post) (pargs @ a # qargs)
       = tool_events pre pargs @ ToolCall (fn_name tc) a # tool_events post qargs"
  by (simp add: tool_events_def)

lemma tool_round_after_failure:
  assumes P: "map (\<lambda>c. json_loads e (arguments_or_default c)) pre = map Inr pargs"
    and A: "json_loads e (arguments_or_default tc) = Inr a"
    and X: "call_tool e (client_session h) (tr @ tool_events pre pargs) (fn_name tc) a = Inl x
            \<or> (\<exists>parts. call_tool e (client_session h) (tr @ tool_events pre pargs)
                           (fn_name tc) a = Inr parts
                  \<and> first_text parts = Inl x)"
  shows "\<exists>rs :: tool_result list. length rs = length pre
     \<and> tool_round e h q m (pre @ tc # post) tr =
         (case execute_tools e h post
                 \<lparr>result_parts = content_parts (msg_content m) @ map tr_log rs
                                   @ [''['' @ error_content x @ '']''],
                  messages = [UserTurn q,
                              AssistantTurn (content_or_empty (msg_content m)) (pre @ tc # post)]
                             @ map tr_message rs @ [ToolTurn (tc_id tc) (error_content x)]\<rparr>
                 (tr @ tool_events pre pargs @ [ToolCall (fn_name tc) a]) of
            (Inl y, t) \<Rightarrow> (Inl y, t)
          | (Inr st, t) \<Rightarrow> final_call e h st t)"
proof -
  let ?st = "\<lparr>result_parts = content_parts (msg_content m),
              messages = [UserTurn q,
                          AssistantTurn (content_or_empty (msg_content m)) (pre @ tc # post)]\<rparr>"
  from execute_tools_all_parse [OF P, of h tr ?st] obtain rs :: "tool_result list" where
    len: "length rs = length pre"
    and run: "execute_tools e h pre ?st tr =
          (Inr \<lparr>result_parts = result_parts ?st @ map tr_log rs,
                messages = messages ?st @ map tr_message rs\<rparr>,
           tr @ tool_events pre pargs)"
    by blast
  have "try_call_tool e h (tr @ tool_events pre pargs) tc a = error_result tc x"
    by (rule try_call_tool_failure [OF X])
  then have "tool_round e h q m (pre @ tc # post) tr =
         (case execute_tools e h post
                 \<lparr>result_parts = content_parts (msg_content m) @ map tr_log rs
                                   @ [''['' @ error_content x @ '']''],
                  messages = [UserTurn q,
                              AssistantTurn (content_or_empty (msg_content m)) (pre @ tc # post)]
                             @ map tr_message rs @ [ToolTurn (tc_id tc) (error_content x)]\<rparr>
                 (tr @ tool_events pre pargs @ [ToolCall (fn_name tc) a]) of
            (Inl y, t) \<Rightarrow> (Inl y, t)
          | (Inr st, t) \<Rightarrow> final_call e h st t)"
    by (simp add: tool_round_def execute_tools_append run execute_tool_def A error_result_def)
  with len show ?thesis by blast
qed

lemma process_query_after_tool_failure:
  assumes L: "list_tools e (client_session h) tr = Inr tools"
    and F: "chat_completions_create e (openai_api_key h) (tr @ [ListTools]) [UserTurn q]
              (Some (map format_tool tools)) = Inr (m # ms)"
    and T: "msg_tool_calls m = Some (pre @ tc # post)"
    and P: "map (\<lambda>c. json_loads e (arguments_or_default c)) pre = map Inr pargs"
    and A: "json_loads e (arguments_or_default tc) = Inr a"
    and X: "call_tool e (client_session h)
              (tr @ [ListTools, first_request q tools] @ tool_events pre pargs)
              (fn_name tc) a = Inl x
            \<or> (\<exists>parts. call_tool e (client_session h)
                  (tr @ [ListTools, first_request q tools] @ tool_events pre pargs)
                  (fn_name tc) a = Inr parts
                \<and> first_text parts = Inl x)"
  shows "(\<exists>rs :: tool_result list. length rs = length pre
      \<and> process_query e h q tr =
         (case execute_tools e h post
                 \<lparr>result_parts = content_parts (msg_content m) @ map tr_log rs
                                   @ [''['' @ error_content x @ '']''],
                  messages = [UserTurn q,
                              AssistantTurn (content_or_empty (msg_content m)) (pre @ tc # post)]
                             @ map tr_message rs @ [ToolTurn (tc_id tc) (error_content x)]\<rparr>
                 (tr @ [ListTools, first_request q tools] @ tool_events pre pargs
                    @ [ToolCall (fn_name tc) a]) of
            (Inl y, t) \<Rightarrow> (Inl y, t)
          | (Inr st, t) \<Rightarrow> final_call e h st t))
   \<and> (\<forall>qargs. map (\<lambda>c. json_loads e (arguments_or_default c)) post = map Inr qargs \<longrightarrow>
        (\<exists>rs :: tool_result list. length rs = length (pre @ tc # post)
           \<and> tr_log (rs ! length pre) = ''['' @ error_content x @ '']''
           \<and> tr_message (rs ! length pre) = ToolTurn (tc_id tc) (error_content x)
           \<and> requests e h q tr =
                [ListTools, first_request q tools]
                  @ tool_events (pre @ tc # post) (pargs @ a # qargs)
                  @ [EngineCall ([UserTurn q,
                                  AssistantTurn (content_or_empty (msg_content m))
                                    (pre @ tc # post)]
                                 @ map tr_message rs) None]
           \<and> (\<forall>f fs. chat_completions_create e (openai_api_key h)
                        (tr @ [ListTools, first_request q tools]
                           @ tool_events (pre @ tc # post) (pargs @ a # qargs))
                        ([UserTurn q,
                          AssistantTurn (content_or_empty (msg_content m)) (pre @ tc # post)]
                           @ map tr_message rs) None = Inr (f # fs)
                 \<longrightarrow> fst (process_query e h q tr) =
                       Inr (answer (content_parts (msg_content m) @ map tr_log rs
                                      @ content_parts (msg_content f))))))"
proof (intro conjI allI impI)
  have N: "pre @ tc # post \<noteq> []" by simp
  let ?tr0 = "tr @ [ListTools, first_request q tools]"
  from X have X': "call_tool e (client_session h) (?tr0 @ tool_events pre pargs) (fn_name tc) a = Inl x
            \<or> (\<exists>parts. call_tool e (client_session h) (?tr0 @ tool_events pre pargs)
                           (fn_name tc) a = Inr parts
                  \<and> first_text parts = Inl x)" by simp
  from tool_round_after_failure [OF P A X', of q m post]
    process_query_first_phase [OF L F T N]
  show "\<exists>rs :: tool_result list. length rs = length pre
      \<and> process_query e h q tr =
         (case execute_tools e h post
                 \<lparr>result_parts = content_parts (msg_content m) @ map tr_log rs
                                   @ [''['' @ error_content x @ '']''],
                  messages = [UserTurn q,
                              AssistantTurn (content_or_empty (msg_content m)) (pre @ tc # post)]
                             @ map tr_message rs @ [ToolTurn (tc_id tc) (error_content x)]\<rparr>
                 (tr @ [ListTools, first_request q tools] @ tool_events pre pargs
                    @ [ToolCall (fn_name tc) a]) of
            (Inl y, t) \<Rightarrow> (Inl y, t)
          | (Inr st, t) \<Rightarrow> final_call e h st t)"
    by simp
next
  fix qargs
  assume Q: "map (\<lambda>c. json_loads e (arguments_or_default c)) post = map Inr qargs"
  let ?tcs = "pre @ tc # post"
  let ?args = "pargs @ a # qargs"
  have N: "?tcs \<noteq> []" by simp
  have lp: "length pargs = length pre" using P by (metis length_map)
  have PA: "map (\<lambda>c. json_loads e (arguments_or_default c)) ?tcs = map Inr ?args"
    using P A Q by simp
  from process_query_all_parse [OF L F T N PA] obtain rs :: "tool_result list" where
    len: "length rs = length ?tcs"
    and req: "requests e h q tr =
          [ListTools, first_request q tools] @ tool_events ?tcs ?args
            @ [EngineCall ([UserTurn q, AssistantTurn (content_or_empty (msg_content m)) ?tcs]
                             @ map tr_message rs) None]"
    and nth: "\<forall>i < length ?tcs.
           tool_events ?tcs ?args ! i = ToolCall (fn_name (?tcs ! i)) (?args ! i)
         \<and> rs ! i = try_call_tool e h
                       (tr @ [ListTools, first_request q tools] @ take i (tool_events ?tcs ?args))
                       (?tcs ! i) (?args ! i)"
    and ans: "\<forall>f fs. chat_completions_create e (openai_api_key h)
                  (tr @ [ListTools, first_request q tools] @ tool_events ?tcs ?args)
                  ([UserTurn q, AssistantTurn (content_or_empty (msg_content m)) ?tcs]
                     @ map tr_message rs) None = Inr (f # fs)
           \<longrightarrow> fst (process_query e h q tr) =
                 Inr (answer (content_parts (msg_content m) @ map tr_log rs
                                @ content_parts (msg_content f)))"
    by blast
  have i: "length pre < length ?tcs" by simp
  have tk: "take (length pre) (tool_events ?tcs ?args) = tool_events pre pargs"
    using lp by (simp add: tool_events_append) (simp add: tool_events_def)
  have "?args ! length pre = a" using lp by (metis nth_append_length)
  with nth i tk have "rs ! length pre = try_call_tool e h
       (tr @ [ListTools, first_request q tools] @ tool_events pre pargs) tc a"
    by (auto simp: nth_append)
  with try_call_tool_failure [OF X] have "rs ! length pre = error_result tc x" by simp
  then have "tr_log (rs ! length pre) = ''['' @ error_content x @ '']''"
    and "tr_message (rs ! length pre) = ToolTurn (tc_id tc) (error_content x)"
    by (simp_all add: error_result_def)
  with len req ans
  show "\<exists>rs :: tool_result list. length rs = length (pre @ tc # post)
           \<and> tr_log (rs ! length pre) = ''['' @ error_content x @ '']''
           \<and> tr_message (rs ! length pre) = ToolTurn (tc_id tc) (error_content x)
           \<and> requests e h q tr =
                [ListTools, first_request q tools]
                  @ tool_events (pre @ tc # post) (pargs @ a # qargs)
                  @ [EngineCall ([UserTurn q,
                                  AssistantTurn (content_or_empty (msg_content m))
                                    (pre @ tc # post)]
                                 @ map tr_message rs) None]
           \<and> (\<forall>f fs. chat_completions_create e (openai_api_key h)
                        (tr @ [ListTools, first_request q tools]
                           @ tool_events (pre @ tc # post) (pargs @ a # qargs))
                        ([UserTurn q,
                          AssistantTurn (content_or_empty (msg_content m)) (pre @ tc # post)]
                           @ map tr_message rs) None = Inr (f # fs)
                 \<longrightarrow> fst (process_query e h q tr) =
                       Inr (answer (content_parts (msg_content m) @ map tr_log rs
                                      @ content_parts (msg_content f))))"
    by blast
qed

lemma join_Cons: "join sep (p # ps) = p @ concat (map (\<lambda>s. sep @ s) ps)"
  by (induction ps arbitrary: p) simp_all

section \<open>Catalog adaptation\<close>

text \<open>
  Claim C9. Every descriptor fetched from the server is adapted by \<open>_get_tools\<close> to one entry,
  in the same position, whose name is the descriptor's name unchanged, whose description is
  the fixed placeholder \<open>No description\<close> when the descriptor has none, and whose parameter
  schema is the empty-object schema \<open>{type: object, properties: {}}\<close> when the descriptor
  carries no schema.
\<close>

theorem get_tools_adapts_each_descriptor:
  "list_tools e (client_session h) tr = Inr tools \<Longrightarrow> i < length tools \<Longrightarrow>
     (\<exists>out. fst (get_tools e h tr) = Inr out \<and> length out = length tools
        \<and> function_field (out ! i) ''name'' = Some (JStr (tool_name (tools ! i)))
        \<and> (tool_description (tools ! i) = None \<longrightarrow>
             function_field (out ! i) ''description'' = Some (JStr ''No description''))
        \<and> (tool_inputSchema (tools ! i) = None \<longrightarrow>
             function_field (out ! i) ''parameters''
               = Some (JObj [(''type'', JStr ''object''), (''properties'', JObj [])])))"
  by (simp add: get_tools_def format_tool_def function_field_def default_schema_def)

theorem get_tools_adapts_each_descriptor_witness:
  "list_tools echo_env (client_session demo_handler) [] = Inr [echo_tool, bare_tool]
   \<and> (1::nat) < length [echo_tool, bare_tool]
   \<and> tool_description ([echo_tool, bare_tool] ! 1) = None
   \<and> tool_inputSchema ([echo_tool, bare_tool] ! 1) = None
   \<and> (\<exists>out. fst (get_tools echo_env demo_handler []) = Inr out \<and> length out = 2
        \<and> function_field (out ! 1) ''name'' = Some (JStr ''ping'')
        \<and> function_field (out ! 1) ''description'' = Some (JStr ''No description'')
        \<and> function_field (out ! 1) ''parameters''
              = Some (JObj [(''type'', JStr ''object''), (''properties'', JObj [])]))"
proof -
  have l: "list_tools echo_env (client_session demo_handler) [] = Inr [echo_tool, bare_tool]"
    by (simp add: echo_env_def)
  have i: "(1::nat) < length [echo_tool, bare_tool]" by simp
  show ?thesis
    using get_tools_adapts_each_descriptor [OF l i] l
    by (simp add: bare_tool_def numeral_2_eq_2)
qed

section \<open>The query protocol\<close>

text \<open>
  Claim C2, as amended. When the first engine response requests no tool invocation (its
  \<open>tool_calls\<close> is absent or empty), \<open>process_query\<close> issues one engine call and no tool call,
  and returns the text \<open>Assistant: \<close> followed by the first call's text (by nothing when the
  response has no text).
\<close>

theorem no_tool_calls_one_engine_call:
  assumes L: "list_tools e (client_session h) tr = Inr tools"
    and F: "chat_completions_create e (openai_api_key h) (tr @ [ListTools]) [UserTurn q]
              (Some (map format_tool tools)) = Inr (m # ms)"
    and Z: "msg_tool_calls m = None \<or> msg_tool_calls m = Some []"
  shows "fst (process_query e h q tr) = Inr (''Assistant: '' @ content_or_empty (msg_content m))
     \<and> requests e h q tr = [ListTools, first_request q tools]
     \<and> length (filter is_engine_call (requests e h q tr)) = 1
     \<and> filter is_tool_call (requests e h q tr) = []"
  using L F Z
  by (auto simp: process_query_def get_tools_def requests_def first_request_def answer_def
        join_content_parts)

theorem no_tool_calls_one_engine_call_witness:
  "list_tools plain_env (client_session demo_handler) [] = Inr [echo_tool, bare_tool]
   \<and> chat_completions_create plain_env (openai_api_key demo_handler) ([] @ [ListTools])
        [UserTurn ''What tools are available?''] (Some (map format_tool [echo_tool, bare_tool]))
        = Inr (\<lparr>msg_content = Some ''You have an echo tool.'', msg_tool_calls = None\<rparr> # [])
   \<and> fst (process_query plain_env demo_handler ''What tools are available?'' [])
        = Inr ''Assistant: You have an echo tool.''
   \<and> requests plain_env demo_handler ''What tools are available?'' []
        = [ListTools, first_request ''What tools are available?'' [echo_tool, bare_tool]]"
proof -
  have l: "list_tools plain_env (client_session demo_handler) [] = Inr [echo_tool, bare_tool]"
    by (simp add: plain_env_def echo_env_def)
  have f: "chat_completions_create plain_env (openai_api_key demo_handler) ([] @ [ListTools])
        [UserTurn ''What tools are available?''] (Some (map format_tool [echo_tool, bare_tool]))
        = Inr (\<lparr>msg_content = Some ''You have an echo tool.'', msg_tool_calls = None\<rparr> # [])"
    by (simp add: plain_env_def)
  have z: "msg_tool_calls \<lparr>msg_content = Some ''You have an echo tool.'', msg_tool_calls = None\<rparr> = None
      \<or> msg_tool_calls \<lparr>msg_content = Some ''You have an echo tool.'', msg_tool_calls = None\<rparr> = Some []"
    by simp
  from no_tool_calls_one_engine_call [OF l f z] l f show ?thesis
    by (simp add: content_or_empty_def)
qed

text \<open>The claim as written fails: the answer is never the bare text of the first call, since
  \<open>process_query\<close> puts \<open>Assistant: \<close> in front of it.\<close>

theorem answer_is_not_the_bare_text_counterexample:
  "chat_completions_create plain_env (openai_api_key demo_handler) [ListTools]
        [UserTurn ''What tools are available?''] (Some (map format_tool [echo_tool, bare_tool]))
        = Inr [\<lparr>msg_content = Some ''You have an echo tool.'', msg_tool_calls = None\<rparr>]
   \<and> fst (process_query plain_env demo_handler ''What tools are available?'' [])
        = Inr ''Assistant: You have an echo tool.''
   \<and> fst (process_query plain_env demo_handler ''What tools are available?'' [])
        \<noteq> Inr ''You have an echo tool.''"
  by (simp add: code_defs echo_defs plain_env_def)

text \<open>
  Claim C1, as amended. When the first engine response requests \<open>N \<ge> 1\<close> tool invocations
  whose argument texts all parse, \<open>process_query\<close> issues exactly two engine calls and exactly
  \<open>N\<close> tool calls, one invocation after the other in the order listed, each seeing the
  requests before it; the second engine call carries the conversation and no tool list; and
  when that call returns a message the answer holds the \<open>N\<close> log segments in the same
  order, after the first text and before the final one.
\<close>

theorem tool_round_requests_in_order:
  assumes L: "list_tools e (client_session h) tr = Inr tools"
    and F: "chat_completions_create e (openai_api_key h) (tr @ [ListTools]) [UserTurn q]
              (Some (map format_tool tools)) = Inr (m # ms)"
    and T: "msg_tool_calls m = Some tcs" and N: "tcs \<noteq> []"
    and P: "map (\<lambda>tc. json_loads e (arguments_or_default tc)) tcs = map Inr args"
  shows "\<exists>rs. length rs = length tcs
     \<and> requests e h q tr =
          [ListTools, first_request q tools] @ tool_events tcs args
            @ [EngineCall ([UserTurn q, AssistantTurn (content_or_empty (msg_content m)) tcs]
                             @ map tr_message rs) None]
     \<and> length (filter is_engine_call (requests e h q tr)) = 2
     \<and> filter is_tool_call (requests e h q tr) = tool_events tcs args
     \<and> length (tool_events tcs args) = length tcs
     \<and> (\<forall>i < length tcs.
           tool_events tcs args ! i = ToolCall (fn_name (tcs ! i)) (args ! i)
         \<and> rs ! i = try_call_tool e h
                       (tr @ [ListTools, first_request q tools] @ take i (tool_events tcs args))
                       (tcs ! i) (args ! i))
     \<and> (\<forall>f fs. chat_completions_create e (openai_api_key h)
                  (tr @ [ListTools, first_request q tools] @ tool_events tcs args)
                  ([UserTurn q, AssistantTurn (content_or_empty (msg_content m)) tcs]
                     @ map tr_message rs) None = Inr (f # fs)
           \<longrightarrow> fst (process_query e h q tr) =
                 Inr (answer (content_parts (msg_content m) @ map tr_log rs
                                @ content_parts (msg_content f))))"
  by (rule process_query_all_parse [OF L F T N P])

theorem tool_round_requests_in_order_witness:
  "list_tools echo_env (client_session demo_handler) [] = Inr [echo_tool, bare_tool]
   \<and> chat_completions_create echo_env (openai_api_key demo_handler) ([] @ [ListTools])
        [UserTurn ''echo hi''] (Some (map format_tool [echo_tool, bare_tool]))
        = Inr (\<lparr>msg_content = None, msg_tool_calls = Some [echo_call]\<rparr> # [])
   \<and> map (\<lambda>tc. json_loads echo_env (arguments_or_default tc)) [echo_call] = map Inr [hi_args]
   \<and> fst (process_query echo_env demo_handler ''echo hi'' [])
        = Inr (''Assistant: [Used echo({'text': 'hi'})]'' @ [CHR 0x0A] @ ''Done.'')
   \<and> requests echo_env demo_handler ''echo hi'' []
        = [ListTools, first_request ''echo hi'' [echo_tool, bare_tool], ToolCall ''echo'' hi_args,
           EngineCall [UserTurn ''echo hi'', AssistantTurn [] [echo_call], ToolTurn ''call_1'' ''hi'']
             None]"
proof -
  have l: "list_tools echo_env (client_session demo_handler) [] = Inr [echo_tool, bare_tool]"
    by (simp add: echo_env_def)
  have f: "chat_completions_create echo_env (openai_api_key demo_handler) ([] @ [ListTools])
        [UserTurn ''echo hi''] (Some (map format_tool [echo_tool, bare_tool]))
        = Inr (\<lparr>msg_content = None, msg_tool_calls = Some [echo_call]\<rparr> # [])"
    by (simp add: echo_env_def)
  have t: "msg_tool_calls \<lparr>msg_content = None, msg_tool_calls = Some [echo_call]\<rparr> = Some [echo_call]"
    by simp
  have n: "[echo_call] \<noteq> []" by simp
  have p: "map (\<lambda>tc. json_loads echo_env (arguments_or_default tc)) [echo_call] = map Inr [hi_args]"
    by (simp add: echo_defs arguments_or_default_def)
  from tool_round_requests_in_order [OF l f t n p]
  have two: "length (filter is_engine_call (requests echo_env demo_handler ''echo hi'' [])) = 2"
    by blast
  have a: "fst (process_query echo_env demo_handler ''echo hi'' [])
        = Inr (''Assistant: [Used echo({'text': 'hi'})]'' @ [CHR 0x0A] @ ''Done.'')"
    by (simp add: code_defs echo_defs)
  have r: "requests echo_env demo_handler ''echo hi'' []
        = [ListTools, first_request ''echo hi'' [echo_tool, bare_tool], ToolCall ''echo'' hi_args,
           EngineCall [UserTurn ''echo hi'', AssistantTurn [] [echo_call], ToolTurn ''call_1'' ''hi'']
             None]"
    using two by (simp add: code_defs echo_defs)
  from l f p a r show ?thesis by blast
qed

text \<open>The claim as written fails on a response whose argument text does not parse: the
  round stops there, with one engine call and fewer than \<open>N\<close> tool calls.\<close>

theorem malformed_arguments_stop_the_round_counterexample:
  "chat_completions_create bad_args_env (openai_api_key demo_handler) [ListTools]
        [UserTurn ''echo hi''] (Some (map format_tool [echo_tool, bare_tool]))
        = Inr [\<lparr>msg_content = None, msg_tool_calls = Some [bad_call]\<rparr>]
   \<and> requests bad_args_env demo_handler ''echo hi'' []
        = [ListTools, first_request ''echo hi'' [echo_tool, bare_tool]]
   \<and> length (filter is_engine_call (requests bad_args_env demo_handler ''echo hi'' [])) \<noteq> 2
   \<and> length (filter is_tool_call (requests bad_args_env demo_handler ''echo hi'' []))
        \<noteq> length [bad_call]"
  by (simp add: code_defs echo_defs bad_args_env_def bad_call_def)

text \<open>
  Claim C3, as amended. An invocation whose argument text is absent or empty is executed
  with the document that the text \<open>{}\<close> parses to, the empty document. An invocation whose
  non-empty argument text fails to parse is not executed: the parse failure leaves
  \<open>_execute_tool\<close> and, once the loop reaches the invocation, \<open>process_query\<close>, and no
  request is issued for it.
\<close>

theorem absent_arguments_default_malformed_raise:
  "(json_loads e ''{}'' = Inr (JObj []) \<longrightarrow>
      (fn_arguments tc = None \<or> fn_arguments tc = Some []) \<longrightarrow>
        execute_tool e h tr tc =
          (Inr (try_call_tool e h tr tc (JObj [])), tr @ [ToolCall (fn_name tc) (JObj [])]))
   \<and> (fn_arguments tc = Some s \<longrightarrow> s \<noteq> [] \<longrightarrow> json_loads e s = Inl x \<longrightarrow>
        execute_tool e h tr tc = (Inl x, tr)
        \<and> (list_tools e (client_session h) tr = Inr tools \<longrightarrow>
           chat_completions_create e (openai_api_key h) (tr @ [ListTools]) [UserTurn q]
              (Some (map format_tool tools)) = Inr (m # ms) \<longrightarrow>
           msg_tool_calls m = Some (pre @ tc # post) \<longrightarrow>
           map (\<lambda>c. json_loads e (arguments_or_default c)) pre = map Inr pargs \<longrightarrow>
             process_query e h q tr =
               (Inl x, tr @ [ListTools, first_request q tools] @ tool_events pre pargs)))"
proof (intro conjI impI)
  assume "json_loads e ''{}'' = Inr (JObj [])"
    and "fn_arguments tc = None \<or> fn_arguments tc = Some []"
  then show "execute_tool e h tr tc =
          (Inr (try_call_tool e h tr tc (JObj [])), tr @ [ToolCall (fn_name tc) (JObj [])])"
    by (auto simp: execute_tool_def arguments_or_default_def)
next
  assume "fn_arguments tc = Some s" "s \<noteq> []" "json_loads e s = Inl x"
  then show "execute_tool e h tr tc = (Inl x, tr)"
    by (simp add: execute_tool_def arguments_or_default_def)
next
  assume A: "fn_arguments tc = Some s" "s \<noteq> []" "json_loads e s = Inl x"
    and L: "list_tools e (client_session h) tr = Inr tools"
    and F: "chat_completions_create e (openai_api_key h) (tr @ [ListTools]) [UserTurn q]
              (Some (map format_tool tools)) = Inr (m # ms)"
    and T: "msg_tool_calls m = Some (pre @ tc # post)"
    and P: "map (\<lambda>c. json_loads e (arguments_or_default c)) pre = map Inr pargs"
  from A have X: "json_loads e (arguments_or_default tc) = Inl x"
    by (simp add: arguments_or_default_def)
  have N: "pre @ tc # post \<noteq> []" by simp
  show "process_query e h q tr =
               (Inl x, tr @ [ListTools, first_request q tools] @ tool_events pre pargs)"
    using process_query_first_phase [OF L F T N]
      execute_tools_stops_at_parse_failure [OF P X]
    by (simp add: tool_round_def)
qed

theorem absent_arguments_default_malformed_raise_witness:
  "json_loads echo_env ''{}'' = Inr (JObj [])
   \<and> fn_arguments no_args_call = None
   \<and> execute_tool echo_env demo_handler [] no_args_call =
        (Inr \<lparr>tr_log = ''[Used echo({})]'', tr_message = ToolTurn ''call_2'' ''hi''\<rparr>,
         [ToolCall ''echo'' (JObj [])])
   \<and> fn_arguments bad_call = Some ''{'' \<and> ''{'' \<noteq> []
   \<and> json_loads bad_args_env ''{'' = Inl decode_error
   \<and> execute_tool bad_args_env demo_handler [] bad_call = (Inl decode_error, [])
   \<and> list_tools bad_args_env (client_session demo_handler) [] = Inr [echo_tool, bare_tool]
   \<and> msg_tool_calls \<lparr>msg_content = None, msg_tool_calls = Some [bad_call]\<rparr>
        = Some ([] @ bad_call # [])
   \<and> process_query bad_args_env demo_handler ''echo hi'' [] =
        (Inl decode_error, [ListTools, first_request ''echo hi'' [echo_tool, bare_tool]])"
proof -
  have a1: "json_loads echo_env ''{}'' = Inr (JObj [])" by (simp add: echo_defs)
  have a2: "fn_arguments no_args_call = None \<or> fn_arguments no_args_call = Some []"
    by (simp add: no_args_call_def)
  have b1: "fn_arguments bad_call = Some ''{''" by (simp add: bad_call_def)
  have b2: "''{'' \<noteq> []" by simp
  have b3: "json_loads bad_args_env ''{'' = Inl decode_error"
    by (simp add: echo_defs bad_args_env_def)
  have l: "list_tools bad_args_env (client_session demo_handler) [] = Inr [echo_tool, bare_tool]"
    by (simp add: echo_defs bad_args_env_def bad_call_def no_args_call_def)
  have f: "chat_completions_create bad_args_env (openai_api_key demo_handler) ([] @ [ListTools])
        [UserTurn ''echo hi''] (Some (map format_tool [echo_tool, bare_tool]))
        = Inr (\<lparr>msg_content = None, msg_tool_calls = Some [bad_call]\<rparr> # [])"
    by (simp add: bad_args_env_def)
  have t: "msg_tool_calls \<lparr>msg_content = None, msg_tool_calls = Some [bad_call]\<rparr>
        = Some ([] @ bad_call # [])" by simp
  have p: "map (\<lambda>c. json_loads bad_args_env (arguments_or_default c)) [] = map Inr []" by simp
  note thm1 = absent_arguments_default_malformed_raise
     [where e = echo_env and tc = no_args_call and h = demo_handler and tr = "[]",
      THEN conjunct1, rule_format, OF a1 a2]
  note thm2 = absent_arguments_default_malformed_raise
     [where e = bad_args_env and tc = bad_call and h = demo_handler and tr = "[]"
        and pre = "[]" and post = "[]" and pargs = "[]" and q = "''echo hi''",
      THEN conjunct2, rule_format, OF b1 b2 b3]
  have c1: "execute_tool echo_env demo_handler [] no_args_call =
        (Inr \<lparr>tr_log = ''[Used echo({})]'', tr_message = ToolTurn ''call_2'' ''hi''\<rparr>,
         [ToolCall ''echo'' (JObj [])])"
    using thm1 by (simp add: code_defs echo_defs bad_args_env_def bad_call_def no_args_call_def)
  have c2: "execute_tool bad_args_env demo_handler [] bad_call = (Inl decode_error, [])"
    using thm2 by simp
  have c3: "process_query bad_args_env demo_handler ''echo hi'' [] =
        (Inl decode_error, [ListTools, first_request ''echo hi'' [echo_tool, bare_tool]])"
    using thm2 [THEN conjunct2, rule_format, OF l f t p] by (simp add: tool_events_def)
  from a1 a2 b1 b2 b3 l t c1 c2 c3 show ?thesis by (simp add: no_args_call_def)
qed

text \<open>The claim as written fails: a malformed argument text aborts the query, and no tool call
  with the empty document is made.\<close>

theorem malformed_arguments_raise_counterexample:
  "fn_arguments bad_call = Some ''{''
   \<and> json_loads bad_args_env ''{'' = Inl decode_error
   \<and> execute_tool bad_args_env demo_handler [] bad_call = (Inl decode_error, [])
   \<and> fst (process_query bad_args_env demo_handler ''echo hi'' []) = Inl decode_error
   \<and> ToolCall ''echo'' (JObj []) \<notin> set (snd (process_query bad_args_env demo_handler ''echo hi'' []))"
  by (simp add: code_defs echo_defs bad_args_env_def bad_call_def)

text \<open>
  Claim C4, as amended. Take any invocation that the loop reaches (the argument texts of the
  invocations before it parsed) and whose execution raises: the call itself, or the reading
  of its first content part. The exception does not leave \<open>process_query\<close>: the answer gains
  the log segment \<open>[Error: \<close> and the exception text and \<open>]\<close>, the conversation gains a tool
  turn whose content is \<open>Error: \<close> and the exception text, and the run goes on exactly as
  after a successful invocation, with the remaining invocations and then the second engine
  call. The query completes with an answer provided that the remaining argument texts parse
  and that the second engine call returns a message: then every requested invocation is
  called in order, the second engine call is sent with that conversation, and
  \<open>process_query\<close> returns \<open>Assistant: \<close> followed by all segments, one per line.
\<close>

theorem tool_failure_is_logged_not_raised:
  assumes L: "list_tools e (client_session h) tr = Inr tools"
    and F: "chat_completions_create e (openai_api_key h) (tr @ [ListTools]) [UserTurn q]
              (Some (map format_tool tools)) = Inr (m # ms)"
    and T: "msg_tool_calls m = Some (pre @ tc # post)"
    and P: "map (\<lambda>c. json_loads e (arguments_or_default c)) pre = map Inr pargs"
    and A: "json_loads e (arguments_or_default tc) = Inr a"
    and X: "call_tool e (client_session h)
              (tr @ [ListTools, first_request q tools] @ tool_events pre pargs)
              (fn_name tc) a = Inl x
            \<or> (\<exists>parts. call_tool e (client_session h)
                  (tr @ [ListTools, first_request q tools] @ tool_events pre pargs)
                  (fn_name tc) a = Inr parts
                \<and> first_text parts = Inl x)"
  shows "(\<exists>rs :: tool_result list. length rs = length pre
      \<and> process_query e h q tr =
         (case execute_tools e h post
                 \<lparr>result_parts = content_parts (msg_content m) @ map tr_log rs
                                   @ [''[Error: '' @ exn_text x @ '']''],
                  messages = [UserTurn q,
                              AssistantTurn (content_or_empty (msg_content m)) (pre @ tc # post)]
                             @ map tr_message rs
                             @ [ToolTurn (tc_id tc) (''Error: '' @ exn_text x)]\<rparr>
                 (tr @ [ListTools, first_request q tools] @ tool_events pre pargs
                    @ [ToolCall (fn_name tc) a]) of
            (Inl y, t) \<Rightarrow> (Inl y, t)
          | (Inr st, t) \<Rightarrow> final_call e h st t))
   \<and> (\<forall>qargs. map (\<lambda>c. json_loads e (arguments_or_default c)) post = map Inr qargs \<longrightarrow>
        (\<exists>rs :: tool_result list. length rs = length (pre @ tc # post)
           \<and> tr_log (rs ! length pre) = ''[Error: '' @ exn_text x @ '']''
           \<and> tr_message (rs ! length pre) = ToolTurn (tc_id tc) (''Error: '' @ exn_text x)
           \<and> requests e h q tr =
                [ListTools, first_request q tools]
                  @ tool_events (pre @ tc # post) (pargs @ a # qargs)
                  @ [EngineCall ([UserTurn q,
                                  AssistantTurn (content_or_empty (msg_content m))
                                    (pre @ tc # post)]
                                 @ map tr_message rs) None]
           \<and> (\<forall>f fs. chat_completions_create e (openai_api_key h)
                        (tr @ [ListTools, first_request q tools]
                           @ tool_events (pre @ tc # post) (pargs @ a # qargs))
                        ([UserTurn q,
                          AssistantTurn (content_or_empty (msg_content m)) (pre @ tc # post)]
                           @ map tr_message rs) None = Inr (f # fs)
                 \<longrightarrow> (\<exists>seg segs.
                        content_parts (msg_content m) @ map tr_log rs
                          @ content_parts (msg_content f) = seg # segs
                        \<and> fst (process_query e h q tr) =
                            Inr (''Assistant: '' @ seg
                                   @ concat (map (\<lambda>s. CHR 0x0A # s) segs))))))"
proof (intro conjI allI impI)
  from process_query_after_tool_failure [OF L F T P A X, THEN conjunct1]
  show "\<exists>rs :: tool_result list. length rs = length pre
      \<and> process_query e h q tr =
         (case execute_tools e h post
                 \<lparr>result_parts = content_parts (msg_content m) @ map tr_log rs
                                   @ [''[Error: '' @ exn_text x @ '']''],
                  messages = [UserTurn q,
                              AssistantTurn (content_or_empty (msg_content m)) (pre @ tc # post)]
                             @ map tr_message rs
                             @ [ToolTurn (tc_id tc) (''Error: '' @ exn_text x)]\<rparr>
                 (tr @ [ListTools, first_request q tools] @ tool_events pre pargs
                    @ [ToolCall (fn_name tc) a]) of
            (Inl y, t) \<Rightarrow> (Inl y, t)
          | (Inr st, t) \<Rightarrow> final_call e h st t)"
    by (simp add: error_content_def)
next
  fix qargs
  assume Q: "map (\<lambda>c. json_loads e (arguments_or_default c)) post = map Inr qargs"
  from process_query_after_tool_failure [OF L F T P A X, THEN conjunct2, rule_format, OF Q]
  obtain rs :: "tool_result list" where
    len: "length rs = length (pre @ tc # post)"
    and lg: "tr_log (rs ! length pre) = ''['' @ error_content x @ '']''"
    and tt: "tr_message (rs ! length pre) = ToolTurn (tc_id tc) (error_content x)"
    and req: "requests e h q tr =
                [ListTools, first_request q tools]
                  @ tool_events (pre @ tc # post) (pargs @ a # qargs)
                  @ [EngineCall ([UserTurn q,
                                  AssistantTurn (content_or_empty (msg_content m))
                                    (pre @ tc # post)]
                                 @ map tr_message rs) None]"
    and ans: "\<forall>f fs. chat_completions_create e (openai_api_key h)
                        (tr @ [ListTools, first_request q tools]
                           @ tool_events (pre @ tc # post) (pargs @ a # qargs))
                        ([UserTurn q,
                          AssistantTurn (content_or_empty (msg_content m)) (pre @ tc # post)]
                           @ map tr_message rs) None = Inr (f # fs)
                 \<longrightarrow> fst (process_query e h q tr) =
                       Inr (answer (content_parts (msg_content m) @ map tr_log rs
                                      @ content_parts (msg_content f)))"
    by blast
  have lg': "tr_log (rs ! length pre) = ''[Error: '' @ exn_text x @ '']''"
    using lg by (simp add: error_content_def)
  have tt': "tr_message (rs ! length pre) = ToolTurn (tc_id tc) (''Error: '' @ exn_text x)"
    using tt by (simp add: error_content_def)
  have ans': "\<forall>f fs. chat_completions_create e (openai_api_key h)
                        (tr @ [ListTools, first_request q tools]
                           @ tool_events (pre @ tc # post) (pargs @ a # qargs))
                        ([UserTurn q,
                          AssistantTurn (content_or_empty (msg_content m)) (pre @ tc # post)]
                           @ map tr_message rs) None = Inr (f # fs)
                 \<longrightarrow> (\<exists>seg segs.
                        content_parts (msg_content m) @ map tr_log rs
                          @ content_parts (msg_content f) = seg # segs
                        \<and> fst (process_query e h q tr) =
                            Inr (''Assistant: '' @ seg
                                   @ concat (map (\<lambda>s. CHR 0x0A # s) segs)))"
  proof (intro allI impI)
    fix f fs
    assume R: "chat_completions_create e (openai_api_key h)
                        (tr @ [ListTools, first_request q tools]
                           @ tool_events (pre @ tc # post) (pargs @ a # qargs))
                        ([UserTurn q,
                          AssistantTurn (content_or_empty (msg_content m)) (pre @ tc # post)]
                           @ map tr_message rs) None = Inr (f # fs)"
    let ?all = "content_parts (msg_content m) @ map tr_log rs @ content_parts (msg_content f)"
    from len have "rs \<noteq> []" by auto
    then have "?all \<noteq> []" by simp
    then obtain seg segs where S: "?all = seg # segs" by (cases ?all) auto
    from ans R have "fst (process_query e h q tr) = Inr (answer ?all)" by blast
    then have "fst (process_query e h q tr) =
                 Inr (''Assistant: '' @ seg @ concat (map (\<lambda>s. CHR 0x0A # s) segs))"
      by (simp only: S answer_def join_Cons) simp
    with S show "\<exists>seg segs. ?all = seg # segs
                        \<and> fst (process_query e h q tr) =
                            Inr (''Assistant: '' @ seg
                                   @ concat (map (\<lambda>s. CHR 0x0A # s) segs))"
      by blast
  qed
  from len lg' tt' req ans'
  show "\<exists>rs :: tool_result list. length rs = length (pre @ tc # post)
           \<and> tr_log (rs ! length pre) = ''[Error: '' @ exn_text x @ '']''
           \<and> tr_message (rs ! length pre) = ToolTurn (tc_id tc) (''Error: '' @ exn_text x)
           \<and> requests e h q tr =
                [ListTools, first_request q tools]
                  @ tool_events (pre @ tc # post) (pargs @ a # qargs)
                  @ [EngineCall ([UserTurn q,
                                  AssistantTurn (content_or_empty (msg_content m))
                                    (pre @ tc # post)]
                                 @ map tr_message rs) None]
           \<and> (\<forall>f fs. chat_completions_create e (openai_api_key h)
                        (tr @ [ListTools, first_request q tools]
                           @ tool_events (pre @ tc # post) (pargs @ a # qargs))
                        ([UserTurn q,
                          AssistantTurn (content_or_empty (msg_content m)) (pre @ tc # post)]
                           @ map tr_message rs) None = Inr (f # fs)
                 \<longrightarrow> (\<exists>seg segs.
                        content_parts (msg_content m) @ map tr_log rs
                          @ content_parts (msg_content f) = seg # segs
                        \<and> fst (process_query e h q tr) =
                            Inr (''Assistant: '' @ seg
                                   @ concat (map (\<lambda>s. CHR 0x0A # s) segs))))"
    by blast
qed

theorem tool_failure_is_logged_not_raised_witness:
  "list_tools failing_tool_env (client_session demo_handler) [] = Inr [echo_tool, bare_tool]
   \<and> chat_completions_create failing_tool_env (openai_api_key demo_handler) ([] @ [ListTools])
        [UserTurn ''ping then echo''] (Some (map format_tool [echo_tool, bare_tool]))
        = Inr (\<lparr>msg_content = None, msg_tool_calls = Some [ping_call, echo_call]\<rparr> # [])
   \<and> json_loads failing_tool_env (arguments_or_default ping_call) = Inr (JObj [])
   \<and> call_tool failing_tool_env (client_session demo_handler)
        ([] @ [ListTools, first_request ''ping then echo'' [echo_tool, bare_tool]]
            @ tool_events [] [])
        (fn_name ping_call) (JObj []) = Inl tool_failure
   \<and> map (\<lambda>c. json_loads failing_tool_env (arguments_or_default c)) [echo_call]
        = map Inr [hi_args]
   \<and> fst (process_query failing_tool_env demo_handler ''ping then echo'' [])
        = Inr (''Assistant: [Error: Connection closed]'' @ [CHR 0x0A]
               @ ''[Used echo({'text': 'hi'})]'' @ [CHR 0x0A] @ ''Done.'')
   \<and> requests failing_tool_env demo_handler ''ping then echo'' []
        = [ListTools, first_request ''ping then echo'' [echo_tool, bare_tool],
           ToolCall ''ping'' (JObj []), ToolCall ''echo'' hi_args,
           EngineCall [UserTurn ''ping then echo'', AssistantTurn [] [ping_call, echo_call],
                       ToolTurn ''call_0'' ''Error: Connection closed'', ToolTurn ''call_1'' ''hi'']
             None]"
proof -
  have l: "list_tools failing_tool_env (client_session demo_handler) [] = Inr [echo_tool, bare_tool]"
    by (simp add: echo_defs ping_call_def failing_tool_env_def)
  have f: "chat_completions_create failing_tool_env (openai_api_key demo_handler) ([] @ [ListTools])
        [UserTurn ''ping then echo''] (Some (map format_tool [echo_tool, bare_tool]))
        = Inr (\<lparr>msg_content = None, msg_tool_calls = Some [ping_call, echo_call]\<rparr> # [])"
    by (simp add: ping_call_def failing_tool_env_def)
  have t: "msg_tool_calls \<lparr>msg_content = None, msg_tool_calls = Some [ping_call, echo_call]\<rparr>
             = Some ([] @ ping_call # [echo_call])" by simp
  have p: "map (\<lambda>c. json_loads failing_tool_env (arguments_or_default c)) [] = map Inr []"
    by simp
  have a: "json_loads failing_tool_env (arguments_or_default ping_call) = Inr (JObj [])"
    by (simp add: echo_defs ping_call_def failing_tool_env_def arguments_or_default_def)
  have x: "call_tool failing_tool_env (client_session demo_handler)
        ([] @ [ListTools, first_request ''ping then echo'' [echo_tool, bare_tool]]
            @ tool_events [] [])
        (fn_name ping_call) (JObj []) = Inl tool_failure"
    by (simp add: echo_defs ping_call_def failing_tool_env_def)
  have q: "map (\<lambda>c. json_loads failing_tool_env (arguments_or_default c)) [echo_call]
        = map Inr [hi_args]"
    by (simp add: echo_defs ping_call_def failing_tool_env_def arguments_or_default_def)
  note fact = tool_failure_is_logged_not_raised [OF l f t p a disjI1 [OF x]]
  from fact [THEN conjunct2, rule_format, OF q]
  have "\<exists>rs :: tool_result list. length rs = length ([] @ ping_call # [echo_call])" by blast
  then have r1: "fst (process_query failing_tool_env demo_handler ''ping then echo'' [])
        = Inr (''Assistant: [Error: Connection closed]'' @ [CHR 0x0A]
               @ ''[Used echo({'text': 'hi'})]'' @ [CHR 0x0A] @ ''Done.'')"
    by (simp add: code_defs echo_defs ping_call_def failing_tool_env_def)
  have r2: "requests failing_tool_env demo_handler ''ping then echo'' []
        = [ListTools, first_request ''ping then echo'' [echo_tool, bare_tool],
           ToolCall ''ping'' (JObj []), ToolCall ''echo'' hi_args,
           EngineCall [UserTurn ''ping then echo'', AssistantTurn [] [ping_call, echo_call],
                       ToolTurn ''call_0'' ''Error: Connection closed'', ToolTurn ''call_1'' ''hi'']
             None]"
    by (simp add: code_defs echo_defs ping_call_def failing_tool_env_def)
  from l f a x q r1 r2 show ?thesis by blast
qed

text \<open>The claim as written fails: after a tool failure the query need not complete. When the
  next invocation has a malformed argument text, \<open>process_query\<close> raises the parse failure,
  the remaining invocation is not called and no second engine call is sent.\<close>

theorem tool_failure_then_malformed_arguments_counterexample:
  "chat_completions_create failing_then_bad_env (openai_api_key demo_handler) [ListTools]
        [UserTurn ''ping then echo''] (Some (map format_tool [echo_tool, bare_tool]))
        = Inr [\<lparr>msg_content = None, msg_tool_calls = Some [ping_call, bad_call]\<rparr>]
   \<and> json_loads failing_then_bad_env (arguments_or_default ping_call) = Inr (JObj [])
   \<and> call_tool failing_then_bad_env (client_session demo_handler)
        [ListTools, first_request ''ping then echo'' [echo_tool, bare_tool]]
        (fn_name ping_call) (JObj []) = Inl tool_failure
   \<and> fst (process_query failing_then_bad_env demo_handler ''ping then echo'' [])
        = Inl decode_error
   \<and> requests failing_then_bad_env demo_handler ''ping then echo'' []
        = [ListTools, first_request ''ping then echo'' [echo_tool, bare_tool],
           ToolCall ''ping'' (JObj [])]"
  by (simp add: code_defs echo_defs ping_call_def bad_call_def failing_then_bad_env_def)

text \<open>
  Claim C8. The second engine call is the one sent without a tool list, and it is the last
  request of a run. Whenever it fails, the result of \<open>process_query\<close> is that failure and
  nothing else: no answer text is returned, so the first text and the tool logs gathered
  before it are dropped.
\<close>

theorem second_call_failure_is_the_result:
  assumes S: "snd (process_query e h q tr) = tr' @ [EngineCall c None]"
    and X: "chat_completions_create e (openai_api_key h) tr' c None = Inl x"
  shows "fst (process_query e h q tr) = Inl x"
proof (cases "list_tools e (client_session h) tr")
  case (Inl y)
  with S show ?thesis by (simp add: process_query_def get_tools_def)
next
  case L: (Inr tools)
  let ?tr1 = "tr @ [ListTools]"
  let ?ts = "map format_tool tools"
  show ?thesis
  proof (cases "chat_completions_create e (openai_api_key h) ?tr1 [UserTurn q] (Some ?ts)")
    case (Inl y)
    with S L show ?thesis by (simp add: process_query_def get_tools_def)
  next
    case F: (Inr resp)
    show ?thesis
    proof (cases resp)
      case Nil
      with S L F show ?thesis by (simp add: process_query_def get_tools_def)
    next
      case (Cons m ms)
      show ?thesis
      proof (cases "msg_tool_calls m = None \<or> msg_tool_calls m = Some []")
        case True
        with S L F Cons show ?thesis by (auto simp: process_query_def get_tools_def)
      next
        case False
        then obtain tcs where T: "msg_tool_calls m = Some tcs" and N: "tcs \<noteq> []" by auto
        from L F Cons T N have PQ: "process_query e h q tr
            = tool_round e h q m tcs (?tr1 @ [EngineCall [UserTurn q] (Some ?ts)])"
          by (simp add: process_query_def get_tools_def)
        from tool_round_second_call_fails [of e h q m tcs ?tr1 "[UserTurn q]" ?ts tr' c x]
          S X PQ show ?thesis by simp
      qed
    qed
  qed
qed

theorem second_call_failure_is_the_result_witness:
  "snd (process_query failing_engine_env demo_handler ''echo hi'' [])
     = [ListTools, first_request ''echo hi'' [echo_tool, bare_tool], ToolCall ''echo'' hi_args]
       @ [EngineCall [UserTurn ''echo hi'', AssistantTurn ''Let me check.'' [echo_call],
                      ToolTurn ''call_1'' ''hi''] None]
   \<and> chat_completions_create failing_engine_env (openai_api_key demo_handler)
        [ListTools, first_request ''echo hi'' [echo_tool, bare_tool], ToolCall ''echo'' hi_args]
        [UserTurn ''echo hi'', AssistantTurn ''Let me check.'' [echo_call],
         ToolTurn ''call_1'' ''hi''] None = Inl engine_failure
   \<and> fst (process_query failing_engine_env demo_handler ''echo hi'' []) = Inl engine_failure"
proof -
  have s: "snd (process_query failing_engine_env demo_handler ''echo hi'' [])
     = [ListTools, first_request ''echo hi'' [echo_tool, bare_tool], ToolCall ''echo'' hi_args]
       @ [EngineCall [UserTurn ''echo hi'', AssistantTurn ''Let me check.'' [echo_call],
                      ToolTurn ''call_1'' ''hi''] None]"
    by (simp add: code_defs echo_defs engine_failure_def failing_engine_env_def)
  have x: "chat_completions_create failing_engine_env (openai_api_key demo_handler)
        [ListTools, first_request ''echo hi'' [echo_tool, bare_tool], ToolCall ''echo'' hi_args]
        [UserTurn ''echo hi'', AssistantTurn ''Let me check.'' [echo_call],
         ToolTurn ''call_1'' ''hi''] None = Inl engine_failure"
    by (simp add: engine_failure_def failing_engine_env_def)
  from second_call_failure_is_the_result [OF s x] s x show ?thesis by blast
qed

text \<open>
  Claim C5. When the resolved path of the server script does not exist, \<open>_connect_to_server\<close>
  fails with the not-found error (a \<open>RuntimeError\<close> whose text is \<open>Server script not found:\<close>
  and the resolved path) and has attempted no step at all, so no child process is spawned.
  The check comes first: whenever a spawn is attempted, the resolved path exists.
\<close>

theorem missing_script_never_spawns:
  "(\<not> path_exists p (path_resolve p path) \<longrightarrow>
      fst (connect_to_server p path) = Inl (not_found_error (path_resolve p path))
      \<and> snd (connect_to_server p path) = [])
   \<and> (Spawn c a \<in> set (snd (connect_to_server p path)) \<longrightarrow>
        path_exists p (path_resolve p path))"
  by (auto simp: connect_to_server_def Let_def)

theorem missing_script_never_spawns_witness:
  "\<not> path_exists broken_platform (path_resolve broken_platform ''nope.py'')
   \<and> fst (connect_to_server broken_platform ''nope.py'')
        = Inl (Exn RuntimeError ''Server script not found: /srv/nope.py'' None)
   \<and> snd (connect_to_server broken_platform ''nope.py'') = []
   \<and> Spawn ''/usr/bin/python3'' [''/srv/server.py'']
        \<in> set (snd (connect_to_server broken_platform ''server.py''))
   \<and> path_exists broken_platform (path_resolve broken_platform ''server.py'')"
proof -
  have n: "\<not> path_exists broken_platform (path_resolve broken_platform ''nope.py'')"
    by (simp add: broken_platform_def)
  have s: "Spawn ''/usr/bin/python3'' [''/srv/server.py'']
        \<in> set (snd (connect_to_server broken_platform ''server.py''))"
    by (simp add: connect_to_server_def server_command_def platform_defs)
  from missing_script_never_spawns [where p = broken_platform and path = "''nope.py''",
         THEN conjunct1, rule_format, OF n]
       missing_script_never_spawns [where p = broken_platform and path = "''server.py''",
         THEN conjunct2, rule_format, OF s] n s
  show ?thesis by (simp add: not_found_error_def broken_platform_def)
qed

text \<open>
  Claim C6. Whichever of the three steps raises (starting the process and its streams,
  opening the session, the handshake), \<open>_connect_to_server\<close> fails with a connection error
  that wraps the exception: a \<open>RuntimeError\<close> whose text is \<open>Failed to connect to server:\<close>
  and the text of the exception, and whose cause is the exception itself. The exception is
  never the result as it was raised.
\<close>

theorem connection_failure_is_wrapped:
  assumes E: "path_exists p (path_resolve p path)"
    and C: "server_command p (path_resolve p path) = (command, args)"
    and X: "stdio_client p command args = Inl x
            \<or> (\<exists>streams. stdio_client p command args = Inr streams
                  \<and> (open_session p streams = Inl x
                      \<or> (\<exists>session. open_session p streams = Inr session
                            \<and> initialize p session = Some x)))"
  shows "fst (connect_to_server p path) = Inl (connect_error x)
     \<and> exn_class (connect_error x) = RuntimeError
     \<and> exn_text (connect_error x) = ''Failed to connect to server: '' @ exn_text x
     \<and> exn_cause (connect_error x) = Some x
     \<and> fst (connect_to_server p path) \<noteq> Inl x"
proof -
  have "fst (connect_to_server p path) = Inl (connect_error x)"
    using E C X by (auto simp: connect_to_server_def Let_def)
  moreover have "connect_error x \<noteq> x"
    by (simp add: connect_error_def exn_not_its_own_cause)
  ultimately show ?thesis by (simp add: connect_error_def)
qed

theorem connection_failure_is_wrapped_witness:
  "path_exists broken_platform (path_resolve broken_platform ''server.py'')
   \<and> server_command broken_platform (path_resolve broken_platform ''server.py'')
        = (''/usr/bin/python3'', [''/srv/server.py''])
   \<and> stdio_client broken_platform ''/usr/bin/python3'' [''/srv/server.py''] = Inl spawn_failure
   \<and> fst (connect_to_server broken_platform ''server.py'')
        = Inl (Exn RuntimeError ''Failed to connect to server: [Errno 13] Permission denied''
                 (Some spawn_failure))
   \<and> fst (connect_to_server broken_platform ''server.py'') \<noteq> Inl spawn_failure"
proof -
  have e: "path_exists broken_platform (path_resolve broken_platform ''server.py'')"
    by (simp add: broken_platform_def)
  have c: "server_command broken_platform (path_resolve broken_platform ''server.py'')
        = (''/usr/bin/python3'', [''/srv/server.py''])"
    by (simp add: server_command_def broken_platform_def)
  have x: "stdio_client broken_platform ''/usr/bin/python3'' [''/srv/server.py''] = Inl spawn_failure"
    by (simp add: broken_platform_def)
  from connection_failure_is_wrapped [OF e c disjI1 [OF x]] e c x
  show ?thesis by (simp add: connect_error_def spawn_failure_def)
qed

text \<open>
  Claim C10, as amended. When the server-script path does not exist, \<open>main\<close> prints one line,
  \<open>Error: Server script '<path>' not found\<close>, attempts no connection and returns; when the path
  exists and the connection fails, \<open>main\<close> prints the text of the connection error and
  returns. In both cases no exception leaves \<open>main\<close>, and the exit status of the process
  is 0.
\<close>

theorem failed_start_prints_and_returns:
  "(\<not> path_exists p (server_path a) \<longrightarrow>
      printed (main p body a) = [script_not_found_line (server_path a)]
      \<and> raised (main p body a) = None
      \<and> attempted (main p body a) = []
      \<and> exit_status (main p body a) = 0)
   \<and> (path_exists p (server_path a) \<longrightarrow>
        fst (connect_to_server p (server_path a)) = Inl x \<longrightarrow>
          printed (main p body a) = [exn_text x]
          \<and> raised (main p body a) = None
          \<and> exit_status (main p body a) = 0)"
proof (intro conjI impI)
  assume E: "path_exists p (server_path a)"
    and X: "fst (connect_to_server p (server_path a)) = Inl x"
  from connect_to_server_raises_RuntimeError [OF X] have R: "exn_class x = RuntimeError" .
  obtain evs where "connect_to_server p (server_path a) = (Inl x, evs)"
    using X by (cases "connect_to_server p (server_path a)") simp
  with E R show "printed (main p body a) = [exn_text x]"
    and "raised (main p body a) = None"
    and "exit_status (main p body a) = 0"
    by (simp_all add: main_def exit_status_def)
qed (simp_all add: main_def exit_status_def)

theorem failed_start_prints_and_returns_witness:
  "\<not> path_exists broken_platform (server_path (members_of ''nope.py''))
   \<and> printed (main broken_platform no_body (members_of ''nope.py''))
        = [''Error: Server script 'nope.py' not found'']
   \<and> exit_status (main broken_platform no_body (members_of ''nope.py'')) = 0
   \<and> path_exists broken_platform (server_path (members_of ''server.py''))
   \<and> fst (connect_to_server broken_platform (server_path (members_of ''server.py'')))
        = Inl (connect_error spawn_failure)
   \<and> printed (main broken_platform no_body (members_of ''server.py''))
        = [''Failed to connect to server: [Errno 13] Permission denied'']
   \<and> exit_status (main broken_platform no_body (members_of ''server.py'')) = 0"
proof -
  have n: "\<not> path_exists broken_platform (server_path (members_of ''nope.py''))"
    by (simp add: platform_defs no_body_def members_of_def)
  have e: "path_exists broken_platform (server_path (members_of ''server.py''))"
    by (simp add: platform_defs no_body_def members_of_def)
  have x: "fst (connect_to_server broken_platform (server_path (members_of ''server.py'')))
        = Inl (connect_error spawn_failure)"
    by (simp add: connect_to_server_def server_command_def platform_defs no_body_def members_of_def)
  from failed_start_prints_and_returns
         [where p = broken_platform and a = "members_of ''nope.py''" and body = no_body,
          THEN conjunct1, rule_format, OF n]
       failed_start_prints_and_returns
         [where p = broken_platform and a = "members_of ''server.py''" and body = no_body,
          THEN conjunct2, rule_format, OF e x] n e x
  show ?thesis
    by (simp add: script_not_found_line_def connect_error_def spawn_failure_def members_of_def)
qed

text \<open>The claim as written fails: on a missing script and on a failed connection the message
  is printed, and the exit status is zero.\<close>

theorem exit_status_is_zero_counterexample:
  "\<not> path_exists broken_platform (server_path (members_of ''nope.py''))
   \<and> printed (main broken_platform no_body (members_of ''nope.py''))
        = [''Error: Server script 'nope.py' not found'']
   \<and> \<not> exit_status (main broken_platform no_body (members_of ''nope.py'')) \<noteq> 0
   \<and> fst (connect_to_server broken_platform (server_path (members_of ''server.py'')))
        = Inl (connect_error spawn_failure)
   \<and> \<not> exit_status (main broken_platform no_body (members_of ''server.py'')) \<noteq> 0"
  by (simp add: main_def exit_status_def connect_to_server_def server_command_def
        script_not_found_line_def connect_error_def platform_defs no_body_def members_of_def)

text \<open>
  Claim C7. With no credential in the environment, constructing the handler raises the
  configuration error (a \<open>RuntimeError\<close> saying that \<open>OPENAI_API_KEY\<close> is not set). When
  construction succeeds, the handler holds the non-empty key that was in the environment,
  \<open>process_query\<close> calls the engine with that key, and it never raises the configuration
  error: an error leaving \<open>process_query\<close> is one a collaborator raised (or the index error of
  an empty response), so as long as no collaborator raises that very error, neither does
  \<open>process_query\<close>.
\<close>

theorem missing_key_error_only_at_construction:
  "init_handler None s = Inl missing_key_error
   \<and> (init_handler g s = Inr h \<longrightarrow>
        g = Some (openai_api_key h) \<and> openai_api_key h \<noteq> []
        \<and> ((\<forall>t. list_tools e (client_session h) t \<noteq> Inl missing_key_error) \<longrightarrow>
            (\<forall>t ms ts. chat_completions_create e (openai_api_key h) t ms ts
                          \<noteq> Inl missing_key_error) \<longrightarrow>
            (\<forall>a. json_loads e a \<noteq> Inl missing_key_error) \<longrightarrow>
              fst (process_query e h q tr) \<noteq> Inl missing_key_error))"
proof (intro conjI impI)
  show "init_handler None s = Inl missing_key_error" by (simp add: init_handler_def)
next
  assume "init_handler g s = Inr h"
  then show "g = Some (openai_api_key h)" and "openai_api_key h \<noteq> []"
    by (auto simp: init_handler_def split: option.splits if_splits)
next
  assume A: "\<forall>t. list_tools e (client_session h) t \<noteq> Inl missing_key_error"
    "\<forall>t ms ts. chat_completions_create e (openai_api_key h) t ms ts \<noteq> Inl missing_key_error"
    "\<forall>a. json_loads e a \<noteq> Inl missing_key_error"
  have "missing_key_error \<noteq> index_error" by (simp add: missing_key_error_def index_error_def)
  with A process_query_error_origin [of e h q tr missing_key_error]
  show "fst (process_query e h q tr) \<noteq> Inl missing_key_error" by blast
qed

theorem missing_key_error_only_at_construction_witness:
  "init_handler None 0 = Inl missing_key_error
   \<and> init_handler (Some ''sk-demo'') 0 = Inr demo_handler
   \<and> (\<forall>t. list_tools echo_env (client_session demo_handler) t \<noteq> Inl missing_key_error)
   \<and> (\<forall>t ms ts. chat_completions_create echo_env (openai_api_key demo_handler) t ms ts
                   \<noteq> Inl missing_key_error)
   \<and> (\<forall>a. json_loads echo_env a \<noteq> Inl missing_key_error)
   \<and> fst (process_query echo_env demo_handler ''echo hi'' []) \<noteq> Inl missing_key_error"
proof -
  have i: "init_handler (Some ''sk-demo'') 0 = Inr demo_handler"
    by (simp add: init_handler_def demo_handler_def)
  have l: "\<forall>t. list_tools echo_env (client_session demo_handler) t \<noteq> Inl missing_key_error"
    by (simp add: echo_env_def)
  have c: "\<forall>t ms ts. chat_completions_create echo_env (openai_api_key demo_handler) t ms ts
                   \<noteq> Inl missing_key_error"
    by (simp add: echo_env_def split: option.splits)
  have j: "\<forall>a. json_loads echo_env a \<noteq> Inl missing_key_error"
    by (simp add: echo_env_def sample_loads_def decode_error_def missing_key_error_def)
  note t = missing_key_error_only_at_construction
     [where s = 0 and g = "Some ''sk-demo''" and h = demo_handler and e = echo_env
        and q = "''echo hi''" and tr = "[]"]
  from t [THEN conjunct1]
       t [THEN conjunct2, THEN mp, OF i, THEN conjunct2, THEN conjunct2,
          THEN mp, OF l, THEN mp, OF c, THEN mp, OF j] i l c j
  show ?thesis by blast
qed

end
